theory Spec2Isabelle
  imports Complex_Main
begin

section \<open>Values shared by the front-end modules\<close>

text \<open>
  A field declared \<^verbatim>\<open>x?: T | null\<close> in \<^verbatim>\<open>types/index.ts\<close> has three kinds of
  value: absent (\<^verbatim>\<open>undefined\<close>), \<^verbatim>\<open>null\<close>, or a value of \<^verbatim>\<open>T\<close>.
\<close>

datatype 'a optional = Undefined | Null | Defined 'a

text \<open>
  JavaScript strings are modelled as HOL strings, a character standing for the code unit
  of the same number. Truthiness of a string: every string but the empty one.
\<close>

definition truthy_string :: "string \<Rightarrow> bool" where
  "truthy_string s = (s \<noteq> [])"

section \<open>Authentication context and API client\<close>

text \<open>\<^verbatim>\<open>AuthTokens\<close> of \<^verbatim>\<open>types/index.ts\<close>.\<close>

record AuthTokens =
  access :: string
  refresh :: string

text \<open>
  \<^verbatim>\<open>localStorage\<close> is a map from keys to string values: \<^verbatim>\<open>getItem\<close> is the lookup
  (\<^verbatim>\<open>null\<close> is \<open>None\<close>), \<^verbatim>\<open>setItem\<close> stores, \<^verbatim>\<open>removeItem\<close> deletes. A write
  is taken to succeed: the storage has room for the three small values written here.
\<close>

type_synonym storage = "string \<rightharpoonup> string"

definition getItem :: "storage \<Rightarrow> string \<Rightarrow> string option" where
  "getItem ls k = ls k"

definition setItem :: "string \<Rightarrow> string \<Rightarrow> storage \<Rightarrow> storage" where
  "setItem k v ls = ls(k \<mapsto> v)"

definition removeItem :: "string \<Rightarrow> storage \<Rightarrow> storage" where
  "removeItem k ls = ls(k := None)"

text \<open>
  \<^verbatim>\<open>clearAuthHeaders\<close> of \<^verbatim>\<open>lib/api.ts\<close>:
  \<^verbatim>\<open>localStorage.removeItem("accessToken"); localStorage.removeItem("refreshToken");\<close>
\<close>

definition clearAuthHeaders :: "storage \<Rightarrow> storage" where
  "clearAuthHeaders ls = removeItem ''refreshToken'' (removeItem ''accessToken'' ls)"

text \<open>
  The state of \<^verbatim>\<open>AuthProvider\<close>: its two \<^verbatim>\<open>useState\<close> cells and the browser's
  \<^verbatim>\<open>localStorage\<close>, which \<^verbatim>\<open>login\<close> and \<^verbatim>\<open>logout\<close> write.
\<close>

record auth_state =
  tokens :: "AuthTokens option"
  userEmail :: "string option"
  localStorage :: storage

text \<open>
  The initial state reads the storage: tokens only when both stored tokens are truthy.
\<close>

definition init_auth :: "storage \<Rightarrow> auth_state" where
  "init_auth ls =
     \<lparr>tokens =
        (case (getItem ls ''accessToken'', getItem ls ''refreshToken'') of
           (Some a, Some r) \<Rightarrow>
             if truthy_string a \<and> truthy_string r then Some \<lparr>access = a, refresh = r\<rparr> else None
         | _ \<Rightarrow> None),
      userEmail = getItem ls ''userEmail'',
      localStorage = ls\<rparr>"

text \<open>
  \<^verbatim>\<open>login(nextTokens, email?)\<close>: the optional email is \<open>None\<close> when the argument is
  omitted; \<^verbatim>\<open>if (email)\<close> tests its truthiness.
\<close>

definition login :: "AuthTokens \<Rightarrow> string option \<Rightarrow> auth_state \<Rightarrow> auth_state" where
  "login nextTokens email s =
     (let s1 = s\<lparr>tokens := Some nextTokens\<rparr>;
          s2 = s1\<lparr>localStorage := setItem ''accessToken'' (access nextTokens) (localStorage s1)\<rparr>;
          s3 = s2\<lparr>localStorage := setItem ''refreshToken'' (refresh nextTokens) (localStorage s2)\<rparr>
      in case email of
           Some e \<Rightarrow>
             if truthy_string e
             then s3\<lparr>userEmail := Some e,
                     localStorage := setItem ''userEmail'' e (localStorage s3)\<rparr>
             else s3
         | None \<Rightarrow> s3)"

definition logout :: "auth_state \<Rightarrow> auth_state" where
  "logout s =
     (let s1 = s\<lparr>tokens := None\<rparr>;
          s2 = s1\<lparr>userEmail := None\<rparr>;
          s3 = s2\<lparr>localStorage := clearAuthHeaders (localStorage s2)\<rparr>;
          s4 = s3\<lparr>localStorage := removeItem ''accessToken'' (localStorage s3)\<rparr>;
          s5 = s4\<lparr>localStorage := removeItem ''refreshToken'' (localStorage s4)\<rparr>
      in s5\<lparr>localStorage := removeItem ''userEmail'' (localStorage s5)\<rparr>)"

text \<open>\<^verbatim>\<open>isAuthenticated: Boolean(tokens?.access)\<close>.\<close>

definition isAuthenticated :: "auth_state \<Rightarrow> bool" where
  "isAuthenticated s = (case tokens s of None \<Rightarrow> False | Some t \<Rightarrow> truthy_string (access t))"

section \<open>Numbers\<close>

text \<open>
  A JavaScript \<^verbatim>\<open>number\<close>: a finite value (every double is a rational), \<^verbatim>\<open>NaN\<close>, or
  one of the two infinities. The sign of zero is not kept: no function below tells
  \<^verbatim>\<open>-0\<close> from \<^verbatim>\<open>0\<close> (both print as \<^verbatim>\<open>0\<close>).
\<close>

datatype number = NaN | NegInfinity | Finite rat | PosInfinity

text \<open>
  Two functions of the JavaScript runtime are parameters of the model: the rounding of an
  exact arithmetic result to the nearest double (with overflow to an infinity), and the
  digit string that \<^verbatim>\<open>Number::toString\<close> prints for a finite number that is not an
  integer of magnitude at most \<open>2\<^sup>5\<^sup>3\<close>.
\<close>

record js_runtime =
  to_double :: "rat \<Rightarrow> number"
  to_digits :: "rat \<Rightarrow> string"

text \<open>The comparisons \<^verbatim>\<open><=\<close> and \<^verbatim>\<open>>\<close>: false whenever an operand is \<^verbatim>\<open>NaN\<close>.\<close>

fun js_le :: "number \<Rightarrow> number \<Rightarrow> bool" where
  "js_le NaN _ = False"
| "js_le _ NaN = False"
| "js_le NegInfinity _ = True"
| "js_le _ PosInfinity = True"
| "js_le (Finite a) (Finite b) = (a \<le> b)"
| "js_le (Finite a) NegInfinity = False"
| "js_le PosInfinity _ = False"

fun js_gt :: "number \<Rightarrow> number \<Rightarrow> bool" where
  "js_gt NaN _ = False"
| "js_gt _ NaN = False"
| "js_gt PosInfinity PosInfinity = False"
| "js_gt PosInfinity _ = True"
| "js_gt _ PosInfinity = False"
| "js_gt (Finite a) (Finite b) = (a > b)"
| "js_gt (Finite a) NegInfinity = True"
| "js_gt NegInfinity _ = False"

text \<open>
  The product \<^verbatim>\<open>a * b\<close>: of two finite numbers, the exact product rounded to a
  double; an infinity times zero is \<^verbatim>\<open>NaN\<close>; otherwise the infinity with the product
  of the signs.
\<close>

definition signed_infinity :: "bool \<Rightarrow> number" where
  "signed_infinity positive = (if positive then PosInfinity else NegInfinity)"

fun js_times :: "js_runtime \<Rightarrow> number \<Rightarrow> number \<Rightarrow> number" where
  "js_times js NaN _ = NaN"
| "js_times js _ NaN = NaN"
| "js_times js (Finite a) (Finite b) = to_double js (a * b)"
| "js_times js (Finite a) PosInfinity = (if a = 0 then NaN else signed_infinity (0 < a))"
| "js_times js (Finite a) NegInfinity = (if a = 0 then NaN else signed_infinity (a < 0))"
| "js_times js PosInfinity (Finite b) = (if b = 0 then NaN else signed_infinity (0 < b))"
| "js_times js NegInfinity (Finite b) = (if b = 0 then NaN else signed_infinity (b < 0))"
| "js_times js PosInfinity PosInfinity = PosInfinity"
| "js_times js PosInfinity NegInfinity = NegInfinity"
| "js_times js NegInfinity PosInfinity = NegInfinity"
| "js_times js NegInfinity NegInfinity = PosInfinity"

text \<open>
  \<^verbatim>\<open>Math.round\<close>: the nearest integer, a tie going up; \<^verbatim>\<open>NaN\<close> and the infinities
  are returned as they are.
\<close>

fun Math_round :: "number \<Rightarrow> number" where
  "Math_round (Finite q) = Finite (of_int \<lfloor>q + 1 / 2\<rfloor>)"
| "Math_round x = x"

text \<open>Decimal digits of a natural number and of an integer.\<close>

definition digit :: "nat \<Rightarrow> char" where
  "digit d = ''0123456789'' ! d"

function show_nat :: "nat \<Rightarrow> string" where
  "show_nat n = (if n < 10 then [digit n] else show_nat (n div 10) @ [digit (n mod 10)])"
  by pat_completeness auto
termination
  by (relation "measure (\<lambda>n. n)") auto

declare show_nat.simps [simp del]

definition show_int :: "int \<Rightarrow> string" where
  "show_int i = (if i < 0 then CHR ''-'' # show_nat (nat (- i)) else show_nat (nat i))"

text \<open>
  \<^verbatim>\<open>ToString\<close> of a number, as a template literal \<^verbatim>\<open>${x}\<close> applies it: the decimal
  digits of an integer of magnitude at most \<open>2\<^sup>5\<^sup>3 = 9007199254740992\<close>, where
  neighbouring doubles are at most 1 apart and the shortest digits that identify the
  double are all the digits of the integer; the runtime's digit string otherwise (for a
  larger integer JavaScript prints the shortest identifying digits padded with zeros).
\<close>

definition ToString :: "js_runtime \<Rightarrow> number \<Rightarrow> string" where
  "ToString js x =
     (case x of
        NaN \<Rightarrow> ''NaN''
      | PosInfinity \<Rightarrow> ''Infinity''
      | NegInfinity \<Rightarrow> ''-Infinity''
      | Finite q \<Rightarrow>
          if of_int \<lfloor>q\<rfloor> = q \<and> \<bar>q\<bar> \<le> 9007199254740992 then show_int \<lfloor>q\<rfloor> else to_digits js q)"

section \<open>The match-rate formatter\<close>

text \<open>
  \<^verbatim>\<open>formatMatchRate\<close> of \<^verbatim>\<open>pages/JobsPage.tsx\<close>:
  \<^verbatim>\<open>if (value === undefined || value === null) return "N/A";\<close>
  \<^verbatim>\<open>return value <= 1 ? `${Math.round(value * 100)}%` : `${value}%`;\<close>
\<close>

definition formatMatchRate :: "js_runtime \<Rightarrow> number optional \<Rightarrow> string" where
  "formatMatchRate js val =
     (case val of
        Undefined \<Rightarrow> ''N/A''
      | Null \<Rightarrow> ''N/A''
      | Defined v \<Rightarrow>
          if js_le v (Finite 1)
          then ToString js (Math_round (js_times js v (Finite 100))) @ ''%''
          else ToString js v @ ''%'')"

section \<open>Records of the API\<close>

text \<open>A JSON value, for a field of type \<^verbatim>\<open>unknown\<close>.\<close>

datatype json =
  JNull | JBool bool | JNumber number | JString string
  | JArray "json list" | JObject "(string \<times> json) list"

text \<open>
  \<^verbatim>\<open>EvaluationResult\<close> of \<^verbatim>\<open>types/index.ts\<close>. A \<^verbatim>\<open>Record<string, T>\<close> is the list
  of its key-value pairs.
\<close>

record EvaluationResult =
  cv_match_rate :: number
  cv_feedback :: string
  project_score :: number
  project_feedback :: string
  overall_summary :: string
  cv_parameter_scores :: "(string \<times> number) list optional"
  project_parameter_scores :: "(string \<times> number) list optional"
  raw_context :: "(string \<times> json) list optional"

text \<open>
  The status of an evaluation, \<^verbatim>\<open>"queued" | "processing" | "completed" | "failed"\<close>, and
  the string each value is.
\<close>

datatype status = Queued | Processing | Completed | Failed

definition status_string :: "status \<Rightarrow> string" where
  "status_string s =
     (case s of
        Queued \<Rightarrow> ''queued''
      | Processing \<Rightarrow> ''processing''
      | Completed \<Rightarrow> ''completed''
      | Failed \<Rightarrow> ''failed'')"

text \<open>
  \<^verbatim>\<open>EvaluationStatus\<close>, \<^verbatim>\<open>DocumentUploadResponse\<close>, \<^verbatim>\<open>ApplicationItem\<close>,
  \<^verbatim>\<open>JobSummary\<close> and \<^verbatim>\<open>JobDetail\<close> of \<^verbatim>\<open>types/index.ts\<close>. The three \<^verbatim>\<open>id\<close>
  fields carry the name of their record; identifiers of jobs and applications are
  integers.
\<close>

record EvaluationStatus =
  id_Evaluation :: string
  status :: status
  result :: "EvaluationResult optional"
  error :: "string optional"
  queued_at :: "string optional"
  started_at :: "string optional"
  finished_at :: "string optional"

record DocumentUploadResponse =
  uploaded_cv_document_id :: string
  uploaded_project_document_id :: string

record ApplicationItem =
  id_Application :: int
  application_job_id :: "int optional"
  application_job_title :: string
  application_status :: string
  application_created_at :: string
  evaluation_result :: "EvaluationResult optional"

record JobSummary =
  id_Job :: int
  job_code :: string
  title :: string
  location :: "string optional"
  salary_range :: "string optional"
  created_at :: string

record JobDetail = JobSummary +
  description :: string
  requirements :: string

text \<open>
  The object literal that \<^verbatim>\<open>handleEvaluate\<close> posts to \<^verbatim>\<open>/evaluation/evaluate\<close>;
  \<^verbatim>\<open>job_id\<close> is \<^verbatim>\<open>selectedJobId\<close>, a number or \<^verbatim>\<open>null\<close>.
\<close>

record evaluate_body =
  job_title :: string
  job_id :: "int option"
  cv_document_id :: string
  project_document_id :: string

section \<open>Strings\<close>

text \<open>
  \<^verbatim>\<open>String.prototype.trim\<close> removes white space and line terminators from both ends;
  among the code units below 256 these are 9 to 13, 32 and 160.
\<close>

definition white_space :: "char \<Rightarrow> bool" where
  "white_space c = ((of_char c :: nat) \<in> {9, 10, 11, 12, 13, 32, 160})"

definition trim :: "string \<Rightarrow> string" where
  "trim s = rev (dropWhile white_space (rev (dropWhile white_space s)))"

text \<open>
  \<^verbatim>\<open>toLowerCase\<close> and \<^verbatim>\<open>toUpperCase\<close> on code units below 256: the letters A to Z
  and the accented capitals 192 to 222 (but the sign 215) have their small letter 32
  further. \<^verbatim>\<open>toUpperCase\<close> is applied to the names of the four statuses only, where
  it maps a to z.
\<close>

definition lower_char :: "char \<Rightarrow> char" where
  "lower_char c =
     (let n = (of_char c :: nat)
      in if (65 \<le> n \<and> n \<le> 90) \<or> (192 \<le> n \<and> n \<le> 222 \<and> n \<noteq> 215)
         then char_of (n + 32) else c)"

definition toLowerCase :: "string \<Rightarrow> string" where
  "toLowerCase s = map lower_char s"

definition upper_char :: "char \<Rightarrow> char" where
  "upper_char c =
     (let n = (of_char c :: nat)
      in if 97 \<le> n \<and> n \<le> 122 then char_of (n - 32) else c)"

definition toUpperCase :: "string \<Rightarrow> string" where
  "toUpperCase s = map upper_char s"

text \<open>\<^verbatim>\<open>s.includes(t)\<close>: \<open>t\<close> occurs in \<open>s\<close> as a run of consecutive characters.\<close>

fun startsWith :: "string \<Rightarrow> string \<Rightarrow> bool" where
  "startsWith s [] = True"
| "startsWith [] (d # t) = False"
| "startsWith (c # s) (d # t) = (c = d \<and> startsWith s t)"

fun includes_string :: "string \<Rightarrow> string \<Rightarrow> bool" where
  "includes_string [] t = (t = [])"
| "includes_string (c # s) t = (startsWith (c # s) t \<or> includes_string s t)"

section \<open>The jobs page: state and observable effects\<close>

text \<open>An uploaded file, known by its name; a failed request, known by its message.\<close>

datatype File = File string

datatype request_error = Request_error string

text \<open>
  What the page does to the outside, in the order it does it: toasts, console output,
  requests of the API client, and the two timer calls.
\<close>

datatype effect =
    Toast_error string
  | Toast_info string
  | Toast_success string
  | Console_error request_error
  | Post_upload File File
  | Post_evaluate evaluate_body
  | Get_result string
  | Get_applications
  | Clear_timeout nat
  | Set_timeout nat string

text \<open>
  \<open>Post_upload cv project\<close> is the multipart POST to \<^verbatim>\<open>/applications/upload\<close>,
  \<open>Post_evaluate body\<close> the POST to \<^verbatim>\<open>/evaluation/evaluate\<close>, \<open>Get_result jobId\<close> the GET
  of \<^verbatim>\<open>/evaluation/result/${jobId}\<close>, \<open>Get_applications\<close> the GET of
  \<^verbatim>\<open>/applications/\<close>. \<open>Set_timeout ms jobId\<close> is \<^verbatim>\<open>window.setTimeout(poll, ms)\<close> for the
  \<^verbatim>\<open>poll\<close> closure of \<^verbatim>\<open>pollResult(jobId)\<close>.
\<close>

fun is_request :: "effect \<Rightarrow> bool" where
  "is_request (Post_upload cv project) = True"
| "is_request (Post_evaluate body) = True"
| "is_request (Get_result jobId) = True"
| "is_request Get_applications = True"
| "is_request _ = False"

definition requests :: "effect list \<Rightarrow> effect list" where
  "requests es = filter is_request es"

fun is_error_toast :: "effect \<Rightarrow> bool" where
  "is_error_toast (Toast_error m) = True"
| "is_error_toast _ = False"

fun is_timeout :: "effect \<Rightarrow> bool" where
  "is_timeout (Set_timeout ms jobId) = True"
| "is_timeout _ = False"

fun is_poll :: "effect \<Rightarrow> bool" where
  "is_poll (Get_result jobId) = True"
| "is_poll _ = False"

text \<open>
  The \<^verbatim>\<open>useState\<close> cells and the \<^verbatim>\<open>pollRef\<close> of \<^verbatim>\<open>JobsPage\<close> that the functions
  below read or write. \<^verbatim>\<open>pollRef.current\<close> holds the identifier of the pending timer,
  or \<^verbatim>\<open>null\<close>.
\<close>

record page_state =
  jobs :: "JobSummary list"
  selectedJobId :: "int option"
  jobDetail :: "JobDetail option"
  applications :: "ApplicationItem list"
  searchTitle :: string
  searchLocation :: string
  currentPage :: int
  cvFile :: "File option"
  projectFile :: "File option"
  customJobTitle :: string
  isEvaluating :: bool
  evaluationStatus :: "EvaluationStatus option"
  pollRef :: "nat option"

definition initial_page :: page_state where
  "initial_page =
     \<lparr>jobs = [], selectedJobId = None, jobDetail = None, applications = [],
      searchTitle = [], searchLocation = [], currentPage = 1,
      cvFile = None, projectFile = None, customJobTitle = [],
      isEvaluating = False, evaluationStatus = None, pollRef = None\<rparr>"

text \<open>
  \<^verbatim>\<open>resetPolling\<close>: \<^verbatim>\<open>if (pollRef.current) { window.clearTimeout(pollRef.current);
  pollRef.current = null; }\<close>. A timer identifier is truthy unless it is 0.
\<close>

definition resetPolling :: "page_state \<Rightarrow> page_state \<times> effect list" where
  "resetPolling st =
     (case pollRef st of
        None \<Rightarrow> (st, [])
      | Some t \<Rightarrow> if t \<noteq> 0 then (st\<lparr>pollRef := None\<rparr>, [Clear_timeout t]) else (st, []))"

text \<open>
  \<^verbatim>\<open>fetchApplications\<close>, given the answer of the server to \<^verbatim>\<open>GET /applications/\<close>.
  The first argument is the \<^verbatim>\<open>isAuthenticated\<close> of the render that made the callback.
\<close>

definition fetchApplications ::
  "bool \<Rightarrow> page_state \<Rightarrow> request_error + ApplicationItem list \<Rightarrow> page_state \<times> effect list"
where
  "fetchApplications isAuth st reply =
     (if \<not> isAuth then (st\<lparr>applications := []\<rparr>, [])
      else case reply of
             Inr data \<Rightarrow> (st\<lparr>applications := data\<rparr>, [Get_applications])
           | Inl e \<Rightarrow>
               (st, [Get_applications, Console_error e,
                     Toast_error ''Failed to load applications.'']))"

section \<open>Submitting an evaluation and polling its result\<close>

text \<open>
  What the server answers to one run of the \<^verbatim>\<open>poll\<close> closure: the answer to
  \<^verbatim>\<open>GET /evaluation/result/${jobId}\<close>, the answer to the \<^verbatim>\<open>GET /applications/\<close> that
  follows a terminal status, and the identifier \<^verbatim>\<open>window.setTimeout\<close> returns when the
  run schedules the next one.
\<close>

record poll_reply =
  poll_response :: "request_error + EvaluationStatus"
  applications_response :: "request_error + ApplicationItem list"
  timer :: nat

text \<open>
  One run of \<^verbatim>\<open>poll\<close> inside \<^verbatim>\<open>pollResult(jobId)\<close>, after its request has been sent:
  the state and the effects that follow the answer, and whether the run has scheduled
  another one.
  \<^verbatim>\<open>setEvaluationStatus(data);\<close>
  \<^verbatim>\<open>if (data.status === "completed" || data.status === "failed") {\<close>
  \<^verbatim>\<open>  setIsEvaluating(false); await fetchApplications(); pollRef.current = null;\<close>
  \<^verbatim>\<open>  if (data.status === "completed") toast.success("Evaluation completed.");\<close>
  \<^verbatim>\<open>  else if (data.error) toast.error(data.error);\<close>
  \<^verbatim>\<open>  return; }\<close>
  \<^verbatim>\<open>pollRef.current = window.setTimeout(poll, 4000);\<close>
  and in the \<^verbatim>\<open>catch\<close>: \<^verbatim>\<open>console.error(error); toast.error("Failed to poll evaluation
  result."); setIsEvaluating(false);\<close>
\<close>

definition completion_toast :: "EvaluationStatus \<Rightarrow> effect list" where
  "completion_toast data =
     (if status data = Completed then [Toast_success ''Evaluation completed.'']
      else case error data of
             Defined m \<Rightarrow> if truthy_string m then [Toast_error m] else []
           | _ \<Rightarrow> [])"

definition poll ::
  "bool \<Rightarrow> string \<Rightarrow> page_state \<Rightarrow> poll_reply \<Rightarrow> page_state \<times> effect list \<times> bool"
where
  "poll isAuth jobId st r =
     (case poll_response r of
        Inl e \<Rightarrow>
          (st\<lparr>isEvaluating := False\<rparr>,
           [Console_error e, Toast_error ''Failed to poll evaluation result.''], False)
      | Inr data \<Rightarrow>
          (let st1 = st\<lparr>evaluationStatus := Some data\<rparr>
           in if status data = Completed \<or> status data = Failed
              then (let st2 = st1\<lparr>isEvaluating := False\<rparr>;
                        (st3, es) = fetchApplications isAuth st2 (applications_response r);
                        st4 = st3\<lparr>pollRef := None\<rparr>
                    in (st4, es @ completion_toast data, False))
              else (st1\<lparr>pollRef := Some (timer r)\<rparr>, [Set_timeout 4000 jobId], True)))"

text \<open>
  \<^verbatim>\<open>pollResult(jobId)\<close> against the answers of the server, in order. Every run of
  \<^verbatim>\<open>poll\<close> sends its request first; with no answer left, the run ends there, the request
  pending. A run that has scheduled another one is followed by that one, 4000 ms later.
\<close>

fun pollResult ::
  "bool \<Rightarrow> string \<Rightarrow> page_state \<Rightarrow> poll_reply list \<Rightarrow> page_state \<times> effect list"
where
  "pollResult isAuth jobId st [] = (st, [Get_result jobId])"
| "pollResult isAuth jobId st (r # rs) =
     (case poll isAuth jobId st r of
        (st1, es, again) \<Rightarrow>
          if again
          then (case pollResult isAuth jobId st1 rs of
                  (st2, es2) \<Rightarrow> (st2, Get_result jobId # es @ es2))
          else (st1, Get_result jobId # es))"

text \<open>
  The title \<^verbatim>\<open>handleEvaluate\<close> submits:
  \<^verbatim>\<open>(selectedJobId && jobDetail?.title) || customJobTitle.trim()\<close>. A job identifier is
  truthy unless it is 0.
\<close>

definition jobTitle :: "page_state \<Rightarrow> string" where
  "jobTitle st =
     (case selectedJobId st of
        None \<Rightarrow> trim (customJobTitle st)
      | Some n \<Rightarrow>
          if n \<noteq> 0
          then (case jobDetail st of
                  None \<Rightarrow> trim (customJobTitle st)
                | Some d \<Rightarrow> if truthy_string (title d) then title d else trim (customJobTitle st))
          else trim (customJobTitle st))"

text \<open>
  What the server answers during one \<^verbatim>\<open>handleEvaluate\<close>: to the upload, to the
  submission, and to the polls that follow.
\<close>

record evaluate_env =
  upload_reply :: "request_error + DocumentUploadResponse"
  evaluate_reply :: "request_error + EvaluationStatus"
  poll_replies :: "poll_reply list"

text \<open>
  \<^verbatim>\<open>handleEvaluate\<close>. The three guards return before anything is sent. Then
  \<^verbatim>\<open>setIsEvaluating(true); resetPolling();\<close>, the upload, the submission,
  \<^verbatim>\<open>setEvaluationStatus(data); toast.info("Evaluation queued."); pollResult(data.id);\<close>
  and in the \<^verbatim>\<open>catch\<close>: \<^verbatim>\<open>console.error(error); toast.error("Failed to start
  evaluation."); setIsEvaluating(false);\<close>
\<close>

definition start_failed :: "page_state \<Rightarrow> request_error \<Rightarrow> page_state \<times> effect list" where
  "start_failed st e =
     (st\<lparr>isEvaluating := False\<rparr>, [Console_error e, Toast_error ''Failed to start evaluation.''])"

definition handleEvaluate ::
  "bool \<Rightarrow> page_state \<Rightarrow> evaluate_env \<Rightarrow> page_state \<times> effect list"
where
  "handleEvaluate isAuth st env =
     (if \<not> isAuth then (st, [Toast_error ''Please login to run evaluations.''])
      else case (cvFile st, projectFile st) of
        (Some cv, Some project) \<Rightarrow>
         (if \<not> truthy_string (jobTitle st)
          then (st, [Toast_error ''Provide a job title or pick a job first.''])
          else
            (let st1 = st\<lparr>isEvaluating := True\<rparr>;
                 (st2, es0) = resetPolling st1
             in case upload_reply env of
                  Inl e \<Rightarrow>
                    (case start_failed st2 e of
                       (st3, es) \<Rightarrow> (st3, es0 @ Post_upload cv project # es))
                | Inr uploadRes \<Rightarrow>
                    (let body = \<lparr>job_title = jobTitle st, job_id = selectedJobId st,
                                 cv_document_id = uploaded_cv_document_id uploadRes,
                                 project_document_id = uploaded_project_document_id uploadRes\<rparr>
                     in case evaluate_reply env of
                          Inl e \<Rightarrow>
                            (case start_failed st2 e of
                               (st3, es) \<Rightarrow>
                                 (st3, es0 @ Post_upload cv project # Post_evaluate body # es))
                        | Inr data \<Rightarrow>
                            (case pollResult isAuth (id_Evaluation data)
                                    (st2\<lparr>evaluationStatus := Some data\<rparr>) (poll_replies env) of
                               (st3, es) \<Rightarrow>
                                 (st3, es0 @ Post_upload cv project # Post_evaluate body
                                         # Toast_info ''Evaluation queued.'' # es)))))
      | _ \<Rightarrow> (st, [Toast_error ''Attach both CV and project report PDFs.'']))"

section \<open>The evaluation card\<close>

text \<open>
  \<^verbatim>\<open>statusBadge\<close>, a \<^verbatim>\<open>Record<string, string>\<close>, and the lookup
  \<^verbatim>\<open>statusBadge[s] || "badge"\<close> among the four keys the object literal has. The keys an
  object inherits from its prototype (\<^verbatim>\<open>constructor\<close> and the like) are not modelled:
  the card looks up the names of the four statuses only.
\<close>

definition statusBadge :: "(string \<times> string) list" where
  "statusBadge =
     [(''queued'', ''badge badge--neutral''),
      (''processing'', ''badge badge--warning''),
      (''completed'', ''badge badge--success''),
      (''failed'', ''badge badge--danger'')]"

definition badge_class :: "string \<Rightarrow> string" where
  "badge_class s =
     (case map_of statusBadge s of
        Some c \<Rightarrow> if truthy_string c then c else ''badge''
      | None \<Rightarrow> ''badge'')"

text \<open>
  What the card shows, from \<^verbatim>\<open>{evaluationStatus && (<div className="evaluation-card">\<close>
  on: the heading, the badge, the error paragraph under \<^verbatim>\<open>{evaluationStatus.error &&\<close>
  and the body under \<^verbatim>\<open>{evaluationStatus.result &&\<close>.
\<close>

record card_body =
  cv_match :: string
  cv_feedback_text :: string
  project_score_text :: string
  project_feedback_text :: string
  overall :: string

record evaluation_card =
  heading :: string
  badge :: string
  badge_text :: string
  error_paragraph :: "string option"
  body :: "card_body option"

definition render_body :: "js_runtime \<Rightarrow> EvaluationResult \<Rightarrow> card_body" where
  "render_body js res =
     \<lparr>cv_match = formatMatchRate js (Defined (cv_match_rate res)),
      cv_feedback_text = cv_feedback res,
      project_score_text = ToString js (project_score res),
      project_feedback_text = project_feedback res,
      overall = overall_summary res\<rparr>"

definition render_card :: "js_runtime \<Rightarrow> EvaluationStatus option \<Rightarrow> evaluation_card option" where
  "render_card js es =
     (case es of
        None \<Rightarrow> None
      | Some e \<Rightarrow>
          Some \<lparr>heading = ''Job #'' @ id_Evaluation e,
                badge = badge_class (status_string (status e)),
                badge_text = toUpperCase (status_string (status e)),
                error_paragraph =
                  (case error e of
                     Defined m \<Rightarrow> if truthy_string m then Some m else None
                   | _ \<Rightarrow> None),
                body =
                  (case result e of
                     Defined res \<Rightarrow> Some (render_body js res)
                   | _ \<Rightarrow> None)\<rparr>)"

section \<open>Filtering and pagination of the jobs list\<close>

text \<open>\<^verbatim>\<open>const PAGE_SIZE = 5;\<close>\<close>

definition PAGE_SIZE :: int where
  "PAGE_SIZE = 5"

text \<open>\<^verbatim>\<open>job.location || ""\<close>: the location, or the empty string when it is absent, null or empty.\<close>

definition or_empty :: "string optional \<Rightarrow> string" where
  "or_empty v = (case v of Defined s \<Rightarrow> s | _ \<Rightarrow> [])"

text \<open>
  \<^verbatim>\<open>filteredJobs\<close>: the jobs whose lower-cased title includes the lower-cased title
  search and whose lower-cased location includes the lower-cased location search.
\<close>

definition filteredJobs :: "page_state \<Rightarrow> JobSummary list" where
  "filteredJobs st =
     filter
       (\<lambda>job.
          let titleMatch = includes_string (toLowerCase (title job)) (toLowerCase (searchTitle st));
              locationMatch =
                includes_string (toLowerCase (or_empty (location job)))
                  (toLowerCase (searchLocation st))
          in titleMatch \<and> locationMatch)
       (jobs st)"

text \<open>
  \<^verbatim>\<open>Math.max(1, Math.ceil(filteredJobs.length / PAGE_SIZE))\<close>; the quotient of a list
  length by 5 is taken exactly.
\<close>

definition totalPages :: "page_state \<Rightarrow> int" where
  "totalPages st = max 1 \<lceil>(of_nat (length (filteredJobs st)) :: rat) / of_int PAGE_SIZE\<rceil>"

text \<open>
  \<^verbatim>\<open>Array.prototype.slice(start, end)\<close> on integer arguments: a negative index counts
  from the end, and both are clamped to the length.
\<close>

definition slice :: "'a list \<Rightarrow> int \<Rightarrow> int \<Rightarrow> 'a list" where
  "slice xs start stop =
     (let len = int (length xs);
          k = (if start < 0 then max (len + start) 0 else min start len);
          final = (if stop < 0 then max (len + stop) 0 else min stop len)
      in take (nat (final - k)) (drop (nat k) xs))"

text \<open>
  \<^verbatim>\<open>const start = (currentPage - 1) * PAGE_SIZE;
  return filteredJobs.slice(start, start + PAGE_SIZE);\<close>
\<close>

definition paginatedJobs :: "page_state \<Rightarrow> JobSummary list" where
  "paginatedJobs st =
     (let start = (currentPage st - 1) * PAGE_SIZE
      in slice (filteredJobs st) start (start + PAGE_SIZE))"

text \<open>
  What changes the cells that pagination reads: \<^verbatim>\<open>setJobs(data)\<close> when a fetch of the
  jobs list succeeds, typing in one of the two search inputs, \<^verbatim>\<open>clearFilters\<close>, and
  the \<^verbatim>\<open>onClick\<close> of the Previous and Next buttons (the \<^verbatim>\<open>disabled\<close> attribute of
  a button only takes clicks away).
\<close>

datatype page_event =
    Jobs_loaded "JobSummary list"
  | Search_title string
  | Search_location string
  | Clear_filters
  | Previous_page
  | Next_page

fun handle_event :: "page_state \<Rightarrow> page_event \<Rightarrow> page_state" where
  "handle_event st (Jobs_loaded data) = st\<lparr>jobs := data\<rparr>"
| "handle_event st (Search_title s) = st\<lparr>searchTitle := s\<rparr>"
| "handle_event st (Search_location s) = st\<lparr>searchLocation := s\<rparr>"
| "handle_event st Clear_filters = st\<lparr>searchTitle := [], searchLocation := []\<rparr>"
| "handle_event st Previous_page = st\<lparr>currentPage := max 1 (currentPage st - 1)\<rparr>"
| "handle_event st Next_page = st\<lparr>currentPage := min (totalPages st) (currentPage st + 1)\<rparr>"

text \<open>
  The two effects that write \<^verbatim>\<open>currentPage\<close>, run after the render of \<open>cur\<close> that
  follows the render of \<open>prev\<close>. An effect runs when one of its dependencies has
  changed: \<^verbatim>\<open>setCurrentPage(1)\<close> on \<^verbatim>\<open>[searchTitle, searchLocation]\<close>, then
  \<^verbatim>\<open>if (currentPage > totalPages) setCurrentPage(totalPages)\<close> on
  \<^verbatim>\<open>[currentPage, totalPages]\<close>. Both updates belong to one batch, where the later
  one wins.
\<close>

definition run_effects :: "page_state \<Rightarrow> page_state \<Rightarrow> page_state" where
  "run_effects prev cur =
     (let reset = (searchTitle cur \<noteq> searchTitle prev \<or> searchLocation cur \<noteq> searchLocation prev);
          clamp = ((currentPage cur \<noteq> currentPage prev \<or> totalPages cur \<noteq> totalPages prev)
                   \<and> currentPage cur > totalPages cur)
      in if clamp then cur\<lparr>currentPage := totalPages cur\<rparr>
         else if reset then cur\<lparr>currentPage := 1\<rparr>
         else cur)"

text \<open>
  A state update renders again and runs the effects again, until an effect run leaves
  \<^verbatim>\<open>currentPage\<close> as it is.
\<close>

function settle :: "page_state \<Rightarrow> page_state \<Rightarrow> page_state" where
  "settle prev cur =
     (let nxt = run_effects prev cur
      in if currentPage nxt = currentPage cur then cur else settle cur nxt)"
  by pat_completeness auto
termination
proof (relation "measure (\<lambda>(prev, cur).
    if currentPage (run_effects prev cur) = currentPage cur then 0 else 1)")
  show "wf (measure (\<lambda>(prev, cur).
    if currentPage (run_effects prev cur) = currentPage cur then 0 else (1::nat)))"
    by simp
next
  fix prev cur nxt
  assume n: "nxt = run_effects prev cur" and c: "currentPage nxt \<noteq> currentPage cur"
  have tp: "totalPages nxt = totalPages cur"
    using n by (simp add: run_effects_def totalPages_def filteredJobs_def Let_def)
  have se: "searchTitle nxt = searchTitle cur" "searchLocation nxt = searchLocation cur"
    using n by (simp_all add: run_effects_def Let_def)
  have one: "1 \<le> totalPages cur"
    by (simp add: totalPages_def)
  have le: "currentPage nxt \<le> totalPages nxt"
    using n c one tp by (auto simp add: run_effects_def Let_def split: if_splits)
  have "currentPage (run_effects cur nxt) = currentPage nxt"
    using le se by (simp add: run_effects_def Let_def)
  then show "((cur, nxt), (prev, cur)) \<in> measure (\<lambda>(prev, cur).
    if currentPage (run_effects prev cur) = currentPage cur then 0 else 1)"
    using n c by simp
qed

declare settle.simps [simp del]

text \<open>
  One event: its handler, then the effects until they settle; and a run of events from
  the first render, whose own effect run leaves the initial state as it is
  (\<^verbatim>\<open>currentPage\<close> and \<^verbatim>\<open>totalPages\<close> are both 1). The states of a run are the
  settled ones: the render between a state update and the effects that follow it can
  still see \<^verbatim>\<open>currentPage\<close> above \<^verbatim>\<open>totalPages\<close>, which is why the page shows
  \<^verbatim>\<open>Math.min(currentPage, totalPages)\<close>.
\<close>

definition step :: "page_state \<Rightarrow> page_event \<Rightarrow> page_state" where
  "step st ev = settle st (handle_event st ev)"

definition run_page :: "page_event list \<Rightarrow> page_state" where
  "run_page evs = foldl step initial_page evs"


text \<open>The page number is in range.\<close>

definition page_ok :: "page_state \<Rightarrow> bool" where
  "page_ok st = (1 \<le> currentPage st \<and> currentPage st \<le> totalPages st)"

text \<open>Sample job lists and event sequences.\<close>

definition sample_job :: "int \<Rightarrow> string \<Rightarrow> string optional \<Rightarrow> JobSummary" where
  "sample_job i t loc =
     \<lparr>id_Job = i, job_code = ''job'', title = t, location = loc, salary_range = Undefined,
      created_at = ''2025-01-01''\<rparr>"

definition sample_jobs :: "JobSummary list" where
  "sample_jobs =
     [sample_job 1 ''Backend Engineer'' (Defined ''Remote''),
      sample_job 2 ''Data Engineer'' (Defined ''Jakarta''),
      sample_job 3 ''Designer'' Null,
      sample_job 4 ''ML Engineer'' (Defined ''Remote''),
      sample_job 5 ''Accountant'' Undefined,
      sample_job 6 ''Frontend ENGINEER'' (Defined ''remote''),
      sample_job 7 ''Recruiter'' (Defined ''Bandung'')]"

definition sample_events :: "page_event list" where
  "sample_events = [Jobs_loaded sample_jobs, Next_page, Next_page]"

definition searching_events :: "page_event list" where
  "searching_events =
     [Jobs_loaded [sample_job 1 ''Dev'' (Defined ''Bali''), sample_job 2 ''QA'' Null],
      Search_title ''dE'']"

definition shrinking_events :: "page_event list" where
  "shrinking_events = [Jobs_loaded sample_jobs, Next_page, Jobs_loaded (take 3 sample_jobs)]"

section \<open>The evaluation job behind the poll endpoint\<close>

text \<open>
  The front end under \<^verbatim>\<open>src/\<close> only consumes the submit and poll endpoints; the
  Evaluation Orchestrator and the Job Store that produce what it polls are not among the
  sources. The definitions of this section follow sections 3, 4.7, 4.8, 6 and 7 of the
  specification.
\<close>

text \<open>
  Modelled from the spec: the EvaluationJob record of the Job Store, which is not in the
  sources (section 3): an opaque unique id, the status, the input references, the result
  (null until terminal), the error message (null unless failed) and the queued, started
  and finished timestamps (null until reached).
\<close>

record EvaluationJob =
  job_identity :: string
  job_status :: status
  job_inputs :: evaluate_body
  job_result :: "EvaluationResult option"
  job_error :: "string option"
  job_queued_at :: "string option"
  job_started_at :: "string option"
  job_finished_at :: "string option"

text \<open>
  Modelled from the spec: the transitions of the Orchestrator's state machine, which is
  not in the sources (section 4.7): \<^verbatim>\<open>queued -> processing -> completed\<close> or
  \<^verbatim>\<open>queued -> processing -> failed\<close>, and no transition out of a terminal state.
\<close>

fun next_status :: "status \<Rightarrow> status \<Rightarrow> bool" where
  "next_status Queued Processing = True"
| "next_status Processing Completed = True"
| "next_status Processing Failed = True"
| "next_status _ _ = False"

text \<open>
  Modelled from the spec: the Job Store, which is not in the sources (section 4.8), as a
  map from job ids to job records.
\<close>

type_synonym job_store = "string \<rightharpoonup> EvaluationJob"

text \<open>
  Modelled from the spec: \<^verbatim>\<open>create(job)\<close> of the Job Store, which is not in the sources
  (section 4.8); ids are unique, so a job whose id is taken is not created.
\<close>

definition create_job :: "job_store \<Rightarrow> EvaluationJob \<Rightarrow> job_store option" where
  "create_job store job =
     (case store (job_identity job) of
        None \<Rightarrow> Some (store(job_identity job \<mapsto> job))
      | Some existing \<Rightarrow> None)"

text \<open>
  Modelled from the spec: \<^verbatim>\<open>get(id) -> job or NotFound\<close> of the Job Store, which is
  not in the sources (section 4.8); \<open>None\<close> is NotFound.
\<close>

definition get_job :: "job_store \<Rightarrow> string \<Rightarrow> EvaluationJob option" where
  "get_job store i = store i"

text \<open>
  Modelled from the spec: \<^verbatim>\<open>transition(id, newStatus, fields)\<close> of the Job Store, which
  is not in the sources (section 4.8), atomic per job id; it is refused for an unknown id
  and for a change of status that the state machine of section 4.7 does not have.
\<close>

definition transition ::
  "job_store \<Rightarrow> string \<Rightarrow> status \<Rightarrow> (EvaluationJob \<Rightarrow> EvaluationJob) \<Rightarrow> job_store option"
where
  "transition store i newStatus updates =
     (case store i of
        None \<Rightarrow> None
      | Some job \<Rightarrow>
          if next_status (job_status job) newStatus
          then Some (store(i \<mapsto> (updates job)\<lparr>job_status := newStatus\<rparr>))
          else None)"

text \<open>
  Modelled from the spec: the steps of the Orchestrator, which is not in the sources
  (sections 4.7, 6 and 7). Submission creates the job in status queued, before any
  background work, with its queued timestamp. Claiming it enters processing and records
  \<^verbatim>\<open>started_at\<close>. Completion attaches the result and sets \<^verbatim>\<open>finished_at\<close>. A
  failure attaches the error message, a human-readable and non-empty string, and sets
  \<^verbatim>\<open>finished_at\<close>. The last argument of each step is the time of the step.
\<close>

datatype orchestrator_event =
    Submit string evaluate_body string
  | Claim string string
  | Complete string EvaluationResult string
  | Fail string string string

fun orchestrate :: "job_store \<Rightarrow> orchestrator_event \<Rightarrow> job_store option" where
  "orchestrate store (Submit i request now) =
     create_job store
       \<lparr>job_identity = i, job_status = Queued, job_inputs = request, job_result = None,
        job_error = None, job_queued_at = Some now, job_started_at = None,
        job_finished_at = None\<rparr>"
| "orchestrate store (Claim i now) =
     transition store i Processing (\<lambda>job. job\<lparr>job_started_at := Some now\<rparr>)"
| "orchestrate store (Complete i res now) =
     transition store i Completed
       (\<lambda>job. job\<lparr>job_result := Some res, job_finished_at := Some now\<rparr>)"
| "orchestrate store (Fail i message now) =
     (if message = [] then None
      else transition store i Failed
             (\<lambda>job. job\<lparr>job_error := Some message, job_finished_at := Some now\<rparr>))"

text \<open>
  Modelled from the spec: a history of the Orchestrator, which is not in the sources: the
  steps in order, each one accepted by the store it meets.
\<close>

fun run_orchestrator :: "job_store \<Rightarrow> orchestrator_event list \<Rightarrow> job_store option" where
  "run_orchestrator store [] = Some store"
| "run_orchestrator store (ev # evs) =
     (case orchestrate store ev of
        None \<Rightarrow> None
      | Some store' \<Rightarrow> run_orchestrator store' evs)"

text \<open>
  Modelled from the spec: the poll endpoint, which is not in the sources (section 6):
  \<^verbatim>\<open>{id} -> {id, status, result?, error?, queued_at?, started_at?, finished_at?}\<close>, a
  field being present when the job record has a value for it; \<open>None\<close> when the id is not
  found.
\<close>

definition present :: "'a option \<Rightarrow> 'a optional" where
  "present v = (case v of None \<Rightarrow> Undefined | Some x \<Rightarrow> Defined x)"

definition poll_evaluation :: "job_store \<Rightarrow> string \<Rightarrow> EvaluationStatus option" where
  "poll_evaluation store i =
     (case get_job store i of
        None \<Rightarrow> None
      | Some job \<Rightarrow>
          Some \<lparr>id_Evaluation = job_identity job, status = job_status job,
                result = present (job_result job), error = present (job_error job),
                queued_at = present (job_queued_at job),
                started_at = present (job_started_at job),
                finished_at = present (job_finished_at job)\<rparr>)"

text \<open>
  Modelled from the spec: the invariant of a job record stated in section 3 (result
  non-null iff completed, error non-null iff failed, \<^verbatim>\<open>started_at\<close> set once processing
  has been entered, \<^verbatim>\<open>finished_at\<close> set on a terminal status only) with the non-empty
  error of section 7, and its extension to the jobs of a store.
\<close>

definition job_invariant :: "EvaluationJob \<Rightarrow> bool" where
  "job_invariant job =
     ((job_result job \<noteq> None) = (job_status job = Completed)
      \<and> (job_error job \<noteq> None) = (job_status job = Failed)
      \<and> job_error job \<noteq> Some []
      \<and> (job_started_at job \<noteq> None) = (job_status job \<noteq> Queued)
      \<and> (job_finished_at job \<noteq> None) = (job_status job = Completed \<or> job_status job = Failed))"

definition store_invariant :: "job_store \<Rightarrow> bool" where
  "store_invariant store = (\<forall>i job. store i = Some job \<longrightarrow> job_invariant job \<and> job_identity job = i)"

section \<open>Vocabulary of the properties and sample values\<close>

text \<open>The bodies posted to \<^verbatim>\<open>/evaluation/evaluate\<close>, in order.\<close>

fun submitted :: "effect list \<Rightarrow> evaluate_body list" where
  "submitted [] = []"
| "submitted (Post_evaluate b # es) = b # submitted es"
| "submitted (e # es) = submitted es"

text \<open>
  An answer to a poll that carries a status which is neither completed nor failed, and
  one that carries a terminal status. A failed request is neither.
\<close>

definition pending_status :: "poll_reply \<Rightarrow> bool" where
  "pending_status r =
     (case poll_response r of
        Inl e \<Rightarrow> False
      | Inr data \<Rightarrow> status data \<noteq> Completed \<and> status data \<noteq> Failed)"

definition terminal_status :: "poll_reply \<Rightarrow> bool" where
  "terminal_status r =
     (case poll_response r of
        Inl e \<Rightarrow> False
      | Inr data \<Rightarrow> status data = Completed \<or> status data = Failed)"

text \<open>The state of the page after the runs of \<^verbatim>\<open>poll\<close> that the answers \<open>rs\<close> end.\<close>

definition state_after :: "bool \<Rightarrow> string \<Rightarrow> page_state \<Rightarrow> poll_reply list \<Rightarrow> page_state" where
  "state_after isAuth jobId st rs = foldl (\<lambda>s r. fst (poll isAuth jobId s r)) st rs"

text \<open>A runtime for the concrete evaluations below: every product is exact.\<close>

definition exact_runtime :: js_runtime where
  "exact_runtime = \<lparr>to_double = Finite, to_digits = (\<lambda>q. ''?'')\<rparr>"

text \<open>
  A page on which a job with a loaded detail is selected, two files are attached and a
  custom title is typed; a server that accepts the upload and queues the evaluation.
\<close>

definition sample_detail :: JobDetail where
  "sample_detail =
     \<lparr>id_Job = 7, job_code = ''be-001'', title = ''Backend Engineer'',
      location = Defined ''Remote'', salary_range = Null, created_at = ''2025-01-01'',
      description = ''Build services'', requirements = ''Python''\<rparr>"

definition sample_page :: page_state where
  "sample_page =
     initial_page\<lparr>selectedJobId := Some 7, jobDetail := Some sample_detail,
       cvFile := Some (File ''cv.pdf''), projectFile := Some (File ''report.pdf''),
       customJobTitle := ''  Data Engineer ''\<rparr>"

definition sample_queued :: EvaluationStatus where
  "sample_queued =
     \<lparr>id_Evaluation = ''job-42'', status = Queued, result = Undefined, error = Undefined,
      queued_at = Defined ''2025-01-01T00:00:00Z'', started_at = Null, finished_at = Null\<rparr>"

definition sample_env :: evaluate_env where
  "sample_env =
     \<lparr>upload_reply =
        Inr \<lparr>uploaded_cv_document_id = ''doc-1'', uploaded_project_document_id = ''doc-2''\<rparr>,
      evaluate_reply = Inr sample_queued,
      poll_replies = []\<rparr>"

text \<open>
  Answers of the server to a poll: a status in each of the four states, with an
  applications list that loads, and one whose applications request fails.
\<close>

definition sample_processing :: EvaluationStatus where
  "sample_processing =
     \<lparr>id_Evaluation = ''job-42'', status = Processing, result = Undefined, error = Undefined,
      queued_at = Defined ''2025-01-01T00:00:00Z'', started_at = Defined ''2025-01-01T00:00:01Z'',
      finished_at = Null\<rparr>"

definition sample_failed :: "string optional \<Rightarrow> EvaluationStatus" where
  "sample_failed err =
     \<lparr>id_Evaluation = ''job-42'', status = Failed, result = Undefined, error = err,
      queued_at = Defined ''2025-01-01T00:00:00Z'', started_at = Defined ''2025-01-01T00:00:01Z'',
      finished_at = Defined ''2025-01-01T00:00:09Z''\<rparr>"

definition sample_reply :: "EvaluationStatus \<Rightarrow> poll_reply" where
  "sample_reply data =
     \<lparr>poll_response = Inr data, applications_response = Inr [], timer = 3\<rparr>"

definition sample_result :: EvaluationResult where
  "sample_result =
     \<lparr>cv_match_rate = Finite (17 / 20), cv_feedback = ''Strong backend profile'',
      project_score = Finite 4, project_feedback = ''Clear report'',
      overall_summary = ''Recommended'', cv_parameter_scores = Null,
      project_parameter_scores = Undefined, raw_context = Undefined\<rparr>"

definition sample_completed :: EvaluationStatus where
  "sample_completed =
     \<lparr>id_Evaluation = ''job-42'', status = Completed, result = Defined sample_result,
      error = Null, queued_at = Defined ''2025-01-01T00:00:00Z'',
      started_at = Defined ''2025-01-01T00:00:01Z'',
      finished_at = Defined ''2025-01-01T00:00:09Z''\<rparr>"

text \<open>
  A submission, a history that completes it, and the stores and poll answers on the way.
\<close>

definition sample_body :: evaluate_body where
  "sample_body =
     \<lparr>job_title = ''Backend Engineer'', job_id = Some 7, cv_document_id = ''doc-1'',
      project_document_id = ''doc-2''\<rparr>"

definition sample_trace :: "orchestrator_event list" where
  "sample_trace =
     [Submit ''job-42'' sample_body ''09:00'', Claim ''job-42'' ''09:01'',
      Complete ''job-42'' sample_result ''09:05'']"

definition sample_store :: job_store where
  "sample_store =
     Map.empty(''job-42'' \<mapsto>
       \<lparr>job_identity = ''job-42'', job_status = Completed, job_inputs = sample_body,
        job_result = Some sample_result, job_error = None, job_queued_at = Some ''09:00'',
        job_started_at = Some ''09:01'', job_finished_at = Some ''09:05''\<rparr>)"

definition queued_store :: job_store where
  "queued_store =
     Map.empty(''job-42'' \<mapsto>
       \<lparr>job_identity = ''job-42'', job_status = Queued, job_inputs = sample_body,
        job_result = None, job_error = None, job_queued_at = Some ''09:00'',
        job_started_at = None, job_finished_at = None\<rparr>)"

definition sample_completed_poll :: EvaluationStatus where
  "sample_completed_poll =
     \<lparr>id_Evaluation = ''job-42'', status = Completed, result = Defined sample_result,
      error = Undefined, queued_at = Defined ''09:00'', started_at = Defined ''09:01'',
      finished_at = Defined ''09:05''\<rparr>"

definition sample_queued_poll :: EvaluationStatus where
  "sample_queued_poll =
     \<lparr>id_Evaluation = ''job-42'', status = Queued, result = Undefined, error = Undefined,
      queued_at = Defined ''09:00'', started_at = Undefined, finished_at = Undefined\<rparr>"

section \<open>Properties of the formatter and of the result record\<close>

lemma js_gt_not_le: "js_gt v w \<Longrightarrow> \<not> js_le v w"
  by (cases v; cases w) auto

lemma floor_100_half: "\<lfloor>(201::rat) / 2\<rfloor> = 100"
  by linarith

lemma floor_85_half: "\<lfloor>(171::rat) / 2\<rfloor> = 85"
  by linarith

lemma show_nat_100: "show_nat 100 = ''100''"
  by (simp add: show_nat.simps digit_def)

lemma show_nat_85: "show_nat 85 = ''85''"
  by (simp add: show_nat.simps digit_def)

lemma formatMatchRate_one:
  assumes "to_double js 100 = Finite 100"
  shows "formatMatchRate js (Defined (Finite 1)) = ''100%''"
  using assms
  by (simp add: formatMatchRate_def ToString_def show_int_def floor_100_half show_nat_100)

text \<open>
  Claim C1. For a defined, non-null match rate \<open>v\<close>, \<^verbatim>\<open>formatMatchRate\<close> takes the
  scale from the magnitude: when \<^verbatim>\<open>v <= 1\<close> it returns
  \<^verbatim>\<open>`${Math.round(v * 100)}%`\<close>, when \<^verbatim>\<open>v > 1\<close> it returns \<^verbatim>\<open>`${v}%`\<close>; for
  \<^verbatim>\<open>undefined\<close> and for \<^verbatim>\<open>null\<close> it returns \<^verbatim>\<open>"N/A"\<close>. The value 1 is read as the
  fraction 1.0 and printed as \<^verbatim>\<open>"100%"\<close>, not as \<^verbatim>\<open>"1%"\<close> (the product
  \<^verbatim>\<open>1 * 100\<close> is exact in double arithmetic, which is the hypothesis on the runtime).
\<close>

theorem formatMatchRate_scale:
  "formatMatchRate js Undefined = ''N/A''
   \<and> formatMatchRate js Null = ''N/A''
   \<and> (js_le v (Finite 1) \<longrightarrow>
        formatMatchRate js (Defined v) =
          ToString js (Math_round (js_times js v (Finite 100))) @ ''%'')
   \<and> (js_gt v (Finite 1) \<longrightarrow> formatMatchRate js (Defined v) = ToString js v @ ''%'')
   \<and> (to_double js 100 = Finite 100 \<longrightarrow>
        formatMatchRate js (Defined (Finite 1)) = ''100%''
        \<and> formatMatchRate js (Defined (Finite 1)) \<noteq> ''1%'')"
proof -
  have gt: "js_gt v (Finite 1) \<Longrightarrow> formatMatchRate js (Defined v) = ToString js v @ ''%''"
    using js_gt_not_le [of v "Finite 1"] by (simp add: formatMatchRate_def)
  have one: "to_double js 100 = Finite 100 \<Longrightarrow>
      formatMatchRate js (Defined (Finite 1)) = ''100%''"
    by (rule formatMatchRate_one)
  show ?thesis
    using gt one by (auto simp add: formatMatchRate_def)
qed

theorem formatMatchRate_scale_witness:
  "js_le (Finite (17 / 20)) (Finite 1)
   \<and> formatMatchRate exact_runtime (Defined (Finite (17 / 20))) = ''85%''
   \<and> to_double exact_runtime 100 = Finite 100
   \<and> formatMatchRate exact_runtime (Defined (Finite 1)) = ''100%''
   \<and> js_gt (Finite 85) (Finite 1)
   \<and> formatMatchRate exact_runtime (Defined (Finite 85)) = ''85%''"
proof -
  have le: "js_le (Finite (17 / 20)) (Finite 1)" by simp
  have gt: "js_gt (Finite 85) (Finite 1)" by simp
  have ex: "to_double exact_runtime 100 = Finite 100" by (simp add: exact_runtime_def)
  have r1: "formatMatchRate exact_runtime (Defined (Finite (17 / 20))) =
      ToString exact_runtime (Math_round (js_times exact_runtime (Finite (17 / 20)) (Finite 100)))
        @ ''%''"
    using formatMatchRate_scale [of exact_runtime "Finite (17 / 20)"] le by blast
  have r2: "formatMatchRate exact_runtime (Defined (Finite 85)) =
      ToString exact_runtime (Finite 85) @ ''%''"
    using formatMatchRate_scale [of exact_runtime "Finite 85"] gt by blast
  have r3: "formatMatchRate exact_runtime (Defined (Finite 1)) = ''100%''"
    using formatMatchRate_scale [of exact_runtime "Finite 1"] ex by blast
  have v1: "ToString exact_runtime
      (Math_round (js_times exact_runtime (Finite (17 / 20)) (Finite 100))) = ''85''"
    by (simp add: exact_runtime_def ToString_def show_int_def floor_85_half show_nat_85)
  have v2: "ToString exact_runtime (Finite 85) = ''85''"
    by (simp add: ToString_def show_int_def show_nat_85)
  show ?thesis
    using le gt ex r1 r2 r3 v1 v2 by simp
qed

text \<open>
  Claim C7. An \<^verbatim>\<open>EvaluationResult\<close> has the required fields cv_match_rate (number),
  cv_feedback, project_score (number), project_feedback and overall_summary (text), and
  the optional fields cv_parameter_scores, project_parameter_scores and raw_context, each
  of which may be absent or null; nothing else belongs to it: a result is the record of
  these eight fields, and whatever the eight values are (an optional one being absent,
  null or defined), there is exactly one result that carries them.
\<close>

theorem EvaluationResult_fields:
  "(r :: EvaluationResult) =
     \<lparr>cv_match_rate = cv_match_rate r, cv_feedback = cv_feedback r,
      project_score = project_score r, project_feedback = project_feedback r,
      overall_summary = overall_summary r, cv_parameter_scores = cv_parameter_scores r,
      project_parameter_scores = project_parameter_scores r, raw_context = raw_context r\<rparr>
   \<and> (\<exists>!x :: EvaluationResult.
         cv_match_rate x = (m :: number) \<and> cv_feedback x = (f :: string)
         \<and> project_score x = (p :: number) \<and> project_feedback x = (g :: string)
         \<and> overall_summary x = (o_s :: string)
         \<and> cv_parameter_scores x = (cs :: (string \<times> number) list optional)
         \<and> project_parameter_scores x = (ps :: (string \<times> number) list optional)
         \<and> raw_context x = (rc :: (string \<times> json) list optional))
   \<and> (cs = Undefined \<or> cs = Null \<or> (\<exists>scores. cs = Defined scores))
   \<and> (ps = Undefined \<or> ps = Null \<or> (\<exists>scores. ps = Defined scores))
   \<and> (rc = Undefined \<or> rc = Null \<or> (\<exists>ctx. rc = Defined ctx))"
proof -
  have shape: "r = \<lparr>cv_match_rate = cv_match_rate r, cv_feedback = cv_feedback r,
      project_score = project_score r, project_feedback = project_feedback r,
      overall_summary = overall_summary r, cv_parameter_scores = cv_parameter_scores r,
      project_parameter_scores = project_parameter_scores r, raw_context = raw_context r\<rparr>"
    by simp
  have uniq: "\<exists>!x :: EvaluationResult.
         cv_match_rate x = m \<and> cv_feedback x = f \<and> project_score x = p
         \<and> project_feedback x = g \<and> overall_summary x = o_s
         \<and> cv_parameter_scores x = cs \<and> project_parameter_scores x = ps
         \<and> raw_context x = rc"
  proof (rule ex1I [of _ "\<lparr>cv_match_rate = m, cv_feedback = f, project_score = p,
      project_feedback = g, overall_summary = o_s, cv_parameter_scores = cs,
      project_parameter_scores = ps, raw_context = rc\<rparr>"])
    show "cv_match_rate \<lparr>cv_match_rate = m, cv_feedback = f, project_score = p,
        project_feedback = g, overall_summary = o_s, cv_parameter_scores = cs,
        project_parameter_scores = ps, raw_context = rc\<rparr> = m \<and>
      cv_feedback \<lparr>cv_match_rate = m, cv_feedback = f, project_score = p,
        project_feedback = g, overall_summary = o_s, cv_parameter_scores = cs,
        project_parameter_scores = ps, raw_context = rc\<rparr> = f \<and>
      project_score \<lparr>cv_match_rate = m, cv_feedback = f, project_score = p,
        project_feedback = g, overall_summary = o_s, cv_parameter_scores = cs,
        project_parameter_scores = ps, raw_context = rc\<rparr> = p \<and>
      project_feedback \<lparr>cv_match_rate = m, cv_feedback = f, project_score = p,
        project_feedback = g, overall_summary = o_s, cv_parameter_scores = cs,
        project_parameter_scores = ps, raw_context = rc\<rparr> = g \<and>
      overall_summary \<lparr>cv_match_rate = m, cv_feedback = f, project_score = p,
        project_feedback = g, overall_summary = o_s, cv_parameter_scores = cs,
        project_parameter_scores = ps, raw_context = rc\<rparr> = o_s \<and>
      cv_parameter_scores \<lparr>cv_match_rate = m, cv_feedback = f, project_score = p,
        project_feedback = g, overall_summary = o_s, cv_parameter_scores = cs,
        project_parameter_scores = ps, raw_context = rc\<rparr> = cs \<and>
      project_parameter_scores \<lparr>cv_match_rate = m, cv_feedback = f, project_score = p,
        project_feedback = g, overall_summary = o_s, cv_parameter_scores = cs,
        project_parameter_scores = ps, raw_context = rc\<rparr> = ps \<and>
      raw_context \<lparr>cv_match_rate = m, cv_feedback = f, project_score = p,
        project_feedback = g, overall_summary = o_s, cv_parameter_scores = cs,
        project_parameter_scores = ps, raw_context = rc\<rparr> = rc"
      by simp
  next
    fix x :: EvaluationResult
    assume "cv_match_rate x = m \<and> cv_feedback x = f \<and> project_score x = p
         \<and> project_feedback x = g \<and> overall_summary x = o_s
         \<and> cv_parameter_scores x = cs \<and> project_parameter_scores x = ps
         \<and> raw_context x = rc"
    then show "x = \<lparr>cv_match_rate = m, cv_feedback = f, project_score = p,
      project_feedback = g, overall_summary = o_s, cv_parameter_scores = cs,
      project_parameter_scores = ps, raw_context = rc\<rparr>"
      by (cases x) simp
  qed
  have opt: "\<And>v :: 'a optional. v = Undefined \<or> v = Null \<or> (\<exists>w. v = Defined w)"
    by (case_tac v) auto
  show ?thesis
    using shape uniq opt [of cs] opt [of ps] opt [of rc] by blast
qed

section \<open>Properties of the authentication context\<close>

lemma logout_state:
  "tokens (logout s) = None" "userEmail (logout s) = None" "\<not> isAuthenticated (logout s)"
  by (simp_all add: logout_def isAuthenticated_def Let_def)

lemma logout_storage:
  "localStorage (logout s) =
     (localStorage s)(''accessToken'' := None, ''refreshToken'' := None, ''userEmail'' := None)"
  by (simp add: logout_def clearAuthHeaders_def removeItem_def Let_def fun_eq_iff)

lemma login_storage:
  "getItem (localStorage (login t e s)) ''accessToken'' = Some (access t)"
  "getItem (localStorage (login t e s)) ''refreshToken'' = Some (refresh t)"
  by (simp_all add: login_def setItem_def getItem_def Let_def split: option.splits)

lemma login_authenticated: "isAuthenticated (login t e s) = (access t \<noteq> [])"
  by (simp add: login_def isAuthenticated_def truthy_string_def Let_def split: option.splits)

lemma clearAuthHeaders_frame:
  "getItem (clearAuthHeaders ls) k =
     (if k = ''accessToken'' \<or> k = ''refreshToken'' then None else getItem ls k)"
  by (simp add: clearAuthHeaders_def removeItem_def getItem_def)

text \<open>
  Claim C10. After \<^verbatim>\<open>logout()\<close> the context's tokens and userEmail are null,
  isAuthenticated is false, and localStorage holds none of the keys accessToken,
  refreshToken, userEmail. After \<^verbatim>\<open>login(t, e)\<close> localStorage's accessToken is
  \<^verbatim>\<open>t.access\<close> and its refreshToken is \<^verbatim>\<open>t.refresh\<close>, and isAuthenticated is true
  exactly when \<^verbatim>\<open>t.access\<close> is non-empty. \<^verbatim>\<open>clearAuthHeaders\<close> removes the keys
  accessToken and refreshToken and leaves every other key of localStorage, userEmail
  among them, with the value it had.
\<close>

theorem auth_context_frame:
  "tokens (logout s) = None \<and> userEmail (logout s) = None \<and> \<not> isAuthenticated (logout s)
   \<and> getItem (localStorage (logout s)) ''accessToken'' = None
   \<and> getItem (localStorage (logout s)) ''refreshToken'' = None
   \<and> getItem (localStorage (logout s)) ''userEmail'' = None
   \<and> getItem (localStorage (login t e s)) ''accessToken'' = Some (access t)
   \<and> getItem (localStorage (login t e s)) ''refreshToken'' = Some (refresh t)
   \<and> isAuthenticated (login t e s) = (access t \<noteq> [])
   \<and> getItem (clearAuthHeaders ls) ''accessToken'' = None
   \<and> getItem (clearAuthHeaders ls) ''refreshToken'' = None
   \<and> getItem (clearAuthHeaders ls) ''userEmail'' = getItem ls ''userEmail''
   \<and> (\<forall>k. getItem (clearAuthHeaders ls) k =
          (if k = ''accessToken'' \<or> k = ''refreshToken'' then None else getItem ls k))"
  using logout_state [of s] login_storage [of t e s] login_authenticated [of t e s]
    clearAuthHeaders_frame [of ls]
  by (simp add: logout_storage getItem_def)

section \<open>Properties of the submission\<close>

lemma submitted_append: "submitted (es @ fs) = submitted es @ submitted fs"
  by (induction es rule: submitted.induct) auto

lemma fetchApplications_effects:
  "set (snd (fetchApplications a st reply)) \<subseteq>
     {Get_applications, Toast_error ''Failed to load applications.''} \<union> range Console_error"
  by (auto simp add: fetchApplications_def split: sum.splits)

lemma submitted_fetchApplications: "submitted (snd (fetchApplications a st reply)) = []"
  by (simp add: fetchApplications_def split: sum.splits)

lemma submitted_completion_toast: "submitted (completion_toast data) = []"
  by (simp add: completion_toast_def truthy_string_def split: optional.splits)

lemma submitted_poll: "submitted (fst (snd (poll a j st r))) = []"
  by (simp add: poll_def Let_def case_prod_beta submitted_append submitted_fetchApplications
      submitted_completion_toast split: sum.splits)

lemma submitted_pollResult: "submitted (snd (pollResult a j st rs)) = []"
proof (induction rs arbitrary: st)
  case Nil
  show ?case by simp
next
  case (Cons r rs)
  obtain st1 es again where p: "poll a j st r = (st1, es, again)"
    by (cases "poll a j st r") auto
  have es: "submitted es = []"
    using submitted_poll [of a j st r] p by simp
  show ?case
    using Cons.IH [of st1] p es
    by (simp add: submitted_append case_prod_beta)
qed

lemma submitted_resetPolling: "submitted (snd (resetPolling st)) = []"
  by (simp add: resetPolling_def split: option.splits)

lemma handleEvaluate_submitted:
  assumes "isAuth" "cvFile st \<noteq> None" "projectFile st \<noteq> None" "jobTitle st \<noteq> []"
    and "upload_reply env = Inr uploadRes"
  shows "submitted (snd (handleEvaluate isAuth st env)) =
     [\<lparr>job_title = jobTitle st, job_id = selectedJobId st,
       cv_document_id = uploaded_cv_document_id uploadRes,
       project_document_id = uploaded_project_document_id uploadRes\<rparr>]"
  using assms submitted_resetPolling [of "st\<lparr>isEvaluating := True\<rparr>"]
  by (auto simp add: handleEvaluate_def truthy_string_def start_failed_def Let_def
      case_prod_beta submitted_append submitted_pollResult split: sum.splits)

lemma handleEvaluate_not_submitted:
  assumes "\<not> isAuth \<or> cvFile st = None \<or> projectFile st = None \<or> jobTitle st = []
    \<or> (\<exists>e. upload_reply env = Inl e)"
  shows "submitted (snd (handleEvaluate isAuth st env)) = []"
  using assms submitted_resetPolling [of "st\<lparr>isEvaluating := True\<rparr>"]
  by (auto simp add: handleEvaluate_def truthy_string_def start_failed_def Let_def
      case_prod_beta submitted_append submitted_pollResult split: option.splits sum.splits)

lemma handleEvaluate_refused:
  assumes "\<not> isAuth \<or> cvFile st = None \<or> projectFile st = None \<or> jobTitle st = []"
  shows "fst (handleEvaluate isAuth st env) = st
    \<and> requests (snd (handleEvaluate isAuth st env)) = []"
  using assms
  by (auto simp add: handleEvaluate_def truthy_string_def requests_def split: option.splits)


lemma polls_fetchApplications: "filter is_poll (snd (fetchApplications a st reply)) = []"
  by (simp add: fetchApplications_def split: sum.splits)

lemma polls_completion_toast: "filter is_poll (completion_toast data) = []"
  by (simp add: completion_toast_def truthy_string_def split: optional.splits)

lemma polls_poll: "filter is_poll (fst (snd (poll a j st r))) = []"
  by (simp add: poll_def Let_def case_prod_beta polls_fetchApplications
      polls_completion_toast split: sum.splits)

lemma polls_pollResult:
  "e \<in> set (snd (pollResult a j st rs)) \<Longrightarrow> is_poll e \<Longrightarrow> e = Get_result j"
proof (induction rs arbitrary: st)
  case Nil
  then show ?case by simp
next
  case (Cons r rs)
  obtain st1 es again where p: "poll a j st r = (st1, es, again)"
    by (cases "poll a j st r") auto
  have es: "\<forall>x \<in> set es. \<not> is_poll x"
    using polls_poll [of a j st r] p by (simp add: filter_empty_conv)
  show ?case
  proof (cases again)
    case True
    then have "e = Get_result j \<or> e \<in> set es \<or> e \<in> set (snd (pollResult a j st1 rs))"
      using Cons.prems(1) p by (simp add: case_prod_beta)
    then show ?thesis
      using es Cons.prems(2) Cons.IH [of st1] by blast
  next
    case False
    then have "e = Get_result j \<or> e \<in> set es"
      using Cons.prems(1) p by simp
    then show ?thesis
      using es Cons.prems(2) by blast
  qed
qed

lemma submitted_job_title:
  assumes "b \<in> set (submitted (snd (handleEvaluate isAuth st env)))"
  shows "job_title b = jobTitle st"
proof (cases "\<not> isAuth \<or> cvFile st = None \<or> projectFile st = None \<or> jobTitle st = []
    \<or> (\<exists>e. upload_reply env = Inl e)")
  case True
  then show ?thesis
    using assms handleEvaluate_not_submitted [of isAuth st env] by simp
next
  case False
  then obtain uploadRes where "upload_reply env = Inr uploadRes"
    by (cases "upload_reply env") auto
  then show ?thesis
    using assms False handleEvaluate_submitted [of isAuth st env uploadRes] by simp
qed

text \<open>
  Claim C8. In \<^verbatim>\<open>handleEvaluate\<close>: when a job is selected (\<^verbatim>\<open>selectedJobId\<close> is a job
  identifier, which the code tests by its truthiness, so an identifier other than 0) and
  the loaded detail has a non-empty title, the submitted job_title is that title and the
  "Override job title" input is ignored; the trimmed custom title is submitted only when
  no job is selected or the detail gives no title (no detail loaded, or an empty title);
  and when neither source gives a non-empty title, or the user is not authenticated, or a
  PDF file is missing, nothing is sent and the state is left as it is.
\<close>

theorem handleEvaluate_job_title:
  "(selectedJobId st = Some n \<and> n \<noteq> 0 \<and> jobDetail st = Some d \<and> title d \<noteq> [] \<longrightarrow>
      jobTitle st = title d \<and> jobTitle (st\<lparr>customJobTitle := c\<rparr>) = title d)
   \<and> (\<not> (\<exists>k dt. selectedJobId st = Some k \<and> k \<noteq> 0 \<and> jobDetail st = Some dt \<and> title dt \<noteq> [])
        \<longrightarrow> jobTitle st = trim (customJobTitle st))
   \<and> (\<forall>b \<in> set (submitted (snd (handleEvaluate isAuth st env))). job_title b = jobTitle st)
   \<and> (\<not> isAuth \<or> cvFile st = None \<or> projectFile st = None \<or> jobTitle st = [] \<longrightarrow>
        requests (snd (handleEvaluate isAuth st env)) = []
        \<and> fst (handleEvaluate isAuth st env) = st)"
proof -
  have a: "selectedJobId st = Some n \<and> n \<noteq> 0 \<and> jobDetail st = Some d \<and> title d \<noteq> [] \<longrightarrow>
      jobTitle st = title d \<and> jobTitle (st\<lparr>customJobTitle := c\<rparr>) = title d"
    by (simp add: jobTitle_def truthy_string_def)
  have b: "\<not> (\<exists>k dt. selectedJobId st = Some k \<and> k \<noteq> 0 \<and> jobDetail st = Some dt \<and> title dt \<noteq> [])
        \<longrightarrow> jobTitle st = trim (customJobTitle st)"
    by (auto simp add: jobTitle_def truthy_string_def split: option.splits)
  have c: "\<forall>b \<in> set (submitted (snd (handleEvaluate isAuth st env))). job_title b = jobTitle st"
    using submitted_job_title [of _ isAuth st env] by blast
  have d: "\<not> isAuth \<or> cvFile st = None \<or> projectFile st = None \<or> jobTitle st = [] \<longrightarrow>
        requests (snd (handleEvaluate isAuth st env)) = []
        \<and> fst (handleEvaluate isAuth st env) = st"
    using handleEvaluate_refused [of isAuth st env] by blast
  show ?thesis
    using a b c d by blast
qed

lemma jobTitle_sample: "jobTitle sample_page = ''Backend Engineer''"
  by (simp add: jobTitle_def sample_page_def sample_detail_def truthy_string_def)

lemma trim_sample: "trim ''  Data Engineer '' = ''Data Engineer''"
  by code_simp

theorem handleEvaluate_job_title_witness:
  "jobTitle sample_page = ''Backend Engineer''
   \<and> jobTitle (sample_page\<lparr>customJobTitle := ''Other''\<rparr>) = ''Backend Engineer''
   \<and> jobTitle (sample_page\<lparr>selectedJobId := None\<rparr>) = ''Data Engineer''
   \<and> map job_title (submitted (snd (handleEvaluate True sample_page sample_env)))
       = [''Backend Engineer'']
   \<and> requests (snd (handleEvaluate False sample_page sample_env)) = []
   \<and> requests (snd (handleEvaluate True (sample_page\<lparr>cvFile := None\<rparr>) sample_env)) = []"
proof -
  have sel: "selectedJobId sample_page = Some 7 \<and> (7::int) \<noteq> 0
      \<and> jobDetail sample_page = Some sample_detail \<and> title sample_detail \<noteq> []"
    by (simp add: sample_page_def sample_detail_def)
  have r1: "jobTitle sample_page = title sample_detail
      \<and> jobTitle (sample_page\<lparr>customJobTitle := ''Other''\<rparr>) = title sample_detail"
    using handleEvaluate_job_title
      [where st = sample_page and n = 7 and d = sample_detail and c = "''Other''"] sel
    by blast
  have nosel: "\<not> (\<exists>k dt. selectedJobId (sample_page\<lparr>selectedJobId := None\<rparr>) = Some k \<and> k \<noteq> 0
      \<and> jobDetail (sample_page\<lparr>selectedJobId := None\<rparr>) = Some dt \<and> title dt \<noteq> [])"
    by simp
  have r2: "jobTitle (sample_page\<lparr>selectedJobId := None\<rparr>)
      = trim (customJobTitle (sample_page\<lparr>selectedJobId := None\<rparr>))"
    using handleEvaluate_job_title [where st = "sample_page\<lparr>selectedJobId := None\<rparr>"] nosel
    by blast
  have r3: "\<forall>b \<in> set (submitted (snd (handleEvaluate True sample_page sample_env))).
      job_title b = jobTitle sample_page"
    using handleEvaluate_job_title [where st = sample_page and isAuth = True and env = sample_env]
    by blast
  have r4: "requests (snd (handleEvaluate False sample_page sample_env)) = []"
    using handleEvaluate_job_title [where st = sample_page and isAuth = False and env = sample_env]
    by blast
  have r5: "requests (snd (handleEvaluate True (sample_page\<lparr>cvFile := None\<rparr>) sample_env)) = []"
    using handleEvaluate_job_title
      [where st = "sample_page\<lparr>cvFile := None\<rparr>" and isAuth = True and env = sample_env]
    by simp
  have files: "cvFile sample_page \<noteq> None \<and> projectFile sample_page \<noteq> None"
    by (simp add: sample_page_def)
  have len: "length (submitted (snd (handleEvaluate True sample_page sample_env))) = 1"
    using files handleEvaluate_submitted [of True sample_page sample_env]
    by (simp add: jobTitle_sample sample_env_def)
  have r3': "map job_title (submitted (snd (handleEvaluate True sample_page sample_env)))
       = [jobTitle sample_page]"
    using r3 len by (cases "submitted (snd (handleEvaluate True sample_page sample_env))") auto
  have t: "title sample_detail = ''Backend Engineer''"
    by (simp add: sample_detail_def)
  have cu: "trim (customJobTitle (sample_page\<lparr>selectedJobId := None\<rparr>)) = ''Data Engineer''"
    by (simp add: sample_page_def trim_sample)
  show ?thesis
    using r1 r2 r3' r4 r5 t cu by simp
qed

lemma requests_resetPolling: "requests (snd (resetPolling st)) = []"
  by (simp add: resetPolling_def requests_def split: option.splits)

lemma resetPolling_evaluating: "isEvaluating (fst (resetPolling st)) = isEvaluating st"
  by (simp add: resetPolling_def split: option.splits)

lemma handleEvaluate_unfold:
  assumes "isAuth" "cvFile st = Some cv" "projectFile st = Some project" "jobTitle st \<noteq> []"
    and "upload_reply env = Inr uploadRes" "evaluate_reply env = Inr data"
  shows "handleEvaluate isAuth st env =
     (case resetPolling (st\<lparr>isEvaluating := True\<rparr>) of
        (st2, es0) \<Rightarrow>
          (case pollResult isAuth (id_Evaluation data) (st2\<lparr>evaluationStatus := Some data\<rparr>)
                  (poll_replies env) of
             (st3, es) \<Rightarrow>
               (st3, es0 @ Post_upload cv project
                  # Post_evaluate \<lparr>job_title = jobTitle st, job_id = selectedJobId st,
                       cv_document_id = uploaded_cv_document_id uploadRes,
                       project_document_id = uploaded_project_document_id uploadRes\<rparr>
                  # Toast_info ''Evaluation queued.'' # es)))"
  using assms
  by (simp add: handleEvaluate_def truthy_string_def Let_def case_prod_beta)

lemma handleEvaluate_first_requests:
  assumes "isAuth" "cvFile st = Some cv" "projectFile st = Some project" "jobTitle st \<noteq> []"
    and "upload_reply env = Inr uploadRes"
  shows "take 2 (requests (snd (handleEvaluate isAuth st env))) =
     [Post_upload cv project,
      Post_evaluate \<lparr>job_title = jobTitle st, job_id = selectedJobId st,
        cv_document_id = uploaded_cv_document_id uploadRes,
        project_document_id = uploaded_project_document_id uploadRes\<rparr>]"
  using assms requests_resetPolling [of "st\<lparr>isEvaluating := True\<rparr>"]
  by (cases "evaluate_reply env")
    (simp_all add: handleEvaluate_def truthy_string_def Let_def case_prod_beta requests_def
      start_failed_def)

text \<open>
  Claim C4. Whenever \<^verbatim>\<open>handleEvaluate\<close> submits an evaluation, the body it posts to
  \<^verbatim>\<open>/evaluation/evaluate\<close> is the record of the four fields job_title, job_id,
  cv_document_id and project_document_id, the two document identifiers being those of
  the answer to the \<^verbatim>\<open>/applications/upload\<close> request sent just before; and the answer
  to the submission becomes the displayed evaluation status (the card shows its id and
  its status) and its id is the one every poll that follows asks for.
\<close>

theorem handleEvaluate_request_body:
  assumes "isAuth" and "cvFile st = Some cv" and "projectFile st = Some project"
    and "jobTitle st \<noteq> []" and "upload_reply env = Inr uploadRes"
  shows
    "submitted (snd (handleEvaluate isAuth st env)) =
       [\<lparr>job_title = jobTitle st, job_id = selectedJobId st,
         cv_document_id = uploaded_cv_document_id uploadRes,
         project_document_id = uploaded_project_document_id uploadRes\<rparr>]
     \<and> take 2 (requests (snd (handleEvaluate isAuth st env))) =
       [Post_upload cv project,
        Post_evaluate \<lparr>job_title = jobTitle st, job_id = selectedJobId st,
          cv_document_id = uploaded_cv_document_id uploadRes,
          project_document_id = uploaded_project_document_id uploadRes\<rparr>]
     \<and> (evaluate_reply env = Inr data \<longrightarrow>
          handleEvaluate isAuth st env =
            (case resetPolling (st\<lparr>isEvaluating := True\<rparr>) of
               (st2, es0) \<Rightarrow>
                 (case pollResult isAuth (id_Evaluation data)
                         (st2\<lparr>evaluationStatus := Some data\<rparr>) (poll_replies env) of
                    (st3, es) \<Rightarrow>
                      (st3, es0 @ Post_upload cv project
                         # Post_evaluate \<lparr>job_title = jobTitle st, job_id = selectedJobId st,
                              cv_document_id = uploaded_cv_document_id uploadRes,
                              project_document_id = uploaded_project_document_id uploadRes\<rparr>
                         # Toast_info ''Evaluation queued.'' # es)))
          \<and> (\<forall>e \<in> set (snd (handleEvaluate isAuth st env)).
                is_poll e \<longrightarrow> e = Get_result (id_Evaluation data))
          \<and> (poll_replies env = [] \<longrightarrow>
                evaluationStatus (fst (handleEvaluate isAuth st env)) = Some data
                \<and> isEvaluating (fst (handleEvaluate isAuth st env))
                \<and> filter is_poll (snd (handleEvaluate isAuth st env))
                    = [Get_result (id_Evaluation data)]
                \<and> last (snd (handleEvaluate isAuth st env)) = Get_result (id_Evaluation data)
                \<and> map_option heading (render_card js (evaluationStatus
                      (fst (handleEvaluate isAuth st env))))
                    = Some (''Job #'' @ id_Evaluation data)
                \<and> map_option badge_text (render_card js (evaluationStatus
                      (fst (handleEvaluate isAuth st env))))
                    = Some (toUpperCase (status_string (status data)))))"
proof -
  let ?body = "\<lparr>job_title = jobTitle st, job_id = selectedJobId st,
         cv_document_id = uploaded_cv_document_id uploadRes,
         project_document_id = uploaded_project_document_id uploadRes\<rparr>"
  have sub: "submitted (snd (handleEvaluate isAuth st env)) = [?body]"
    using assms handleEvaluate_submitted [of isAuth st env uploadRes] by simp
  have first: "take 2 (requests (snd (handleEvaluate isAuth st env))) =
      [Post_upload cv project, Post_evaluate ?body]"
    using assms by (rule handleEvaluate_first_requests)
  have rest: "evaluate_reply env = Inr data \<longrightarrow>
          handleEvaluate isAuth st env =
            (case resetPolling (st\<lparr>isEvaluating := True\<rparr>) of
               (st2, es0) \<Rightarrow>
                 (case pollResult isAuth (id_Evaluation data)
                         (st2\<lparr>evaluationStatus := Some data\<rparr>) (poll_replies env) of
                    (st3, es) \<Rightarrow>
                      (st3, es0 @ Post_upload cv project # Post_evaluate ?body
                         # Toast_info ''Evaluation queued.'' # es)))
          \<and> (\<forall>e \<in> set (snd (handleEvaluate isAuth st env)).
                is_poll e \<longrightarrow> e = Get_result (id_Evaluation data))
          \<and> (poll_replies env = [] \<longrightarrow>
                evaluationStatus (fst (handleEvaluate isAuth st env)) = Some data
                \<and> isEvaluating (fst (handleEvaluate isAuth st env))
                \<and> filter is_poll (snd (handleEvaluate isAuth st env))
                    = [Get_result (id_Evaluation data)]
                \<and> last (snd (handleEvaluate isAuth st env)) = Get_result (id_Evaluation data)
                \<and> map_option heading (render_card js (evaluationStatus
                      (fst (handleEvaluate isAuth st env))))
                    = Some (''Job #'' @ id_Evaluation data)
                \<and> map_option badge_text (render_card js (evaluationStatus
                      (fst (handleEvaluate isAuth st env))))
                    = Some (toUpperCase (status_string (status data))))"
  proof
    assume ev: "evaluate_reply env = Inr data"
    let ?r = "resetPolling (st\<lparr>isEvaluating := True\<rparr>)"
    let ?p = "pollResult isAuth (id_Evaluation data)
        ((fst ?r)\<lparr>evaluationStatus := Some data\<rparr>) (poll_replies env)"
    have unf: "handleEvaluate isAuth st env =
        (case ?r of (st2, es0) \<Rightarrow>
           (case pollResult isAuth (id_Evaluation data)
                   (st2\<lparr>evaluationStatus := Some data\<rparr>) (poll_replies env) of
              (st3, es) \<Rightarrow>
                (st3, es0 @ Post_upload cv project # Post_evaluate ?body
                   # Toast_info ''Evaluation queued.'' # es)))"
      using assms ev by (rule handleEvaluate_unfold)
    have eff: "snd (handleEvaluate isAuth st env) =
        snd ?r @ Post_upload cv project # Post_evaluate ?body
          # Toast_info ''Evaluation queued.'' # snd ?p"
      and sta: "fst (handleEvaluate isAuth st env) = fst ?p"
      by (simp_all add: unf case_prod_beta)
    have nopoll: "filter is_poll (snd ?r) = []"
      by (simp add: resetPolling_def split: option.splits)
    have polls: "\<forall>e \<in> set (snd (handleEvaluate isAuth st env)).
        is_poll e \<longrightarrow> e = Get_result (id_Evaluation data)"
    proof (intro ballI impI)
      fix e
      assume e: "e \<in> set (snd (handleEvaluate isAuth st env))" and ip: "is_poll e"
      have "e \<notin> set (snd ?r)"
        using nopoll ip by (auto simp add: filter_empty_conv)
      then have "e \<in> set (snd ?p)"
        using e ip by (auto simp add: eff)
      then show "e = Get_result (id_Evaluation data)"
        using ip by (rule polls_pollResult)
    qed
    have none: "poll_replies env = [] \<longrightarrow>
                evaluationStatus (fst (handleEvaluate isAuth st env)) = Some data
                \<and> isEvaluating (fst (handleEvaluate isAuth st env))
                \<and> filter is_poll (snd (handleEvaluate isAuth st env))
                    = [Get_result (id_Evaluation data)]
                \<and> last (snd (handleEvaluate isAuth st env)) = Get_result (id_Evaluation data)
                \<and> map_option heading (render_card js (evaluationStatus
                      (fst (handleEvaluate isAuth st env))))
                    = Some (''Job #'' @ id_Evaluation data)
                \<and> map_option badge_text (render_card js (evaluationStatus
                      (fst (handleEvaluate isAuth st env))))
                    = Some (toUpperCase (status_string (status data)))"
      using nopoll resetPolling_evaluating [of "st\<lparr>isEvaluating := True\<rparr>"]
      by (simp add: eff sta render_card_def)
    show "handleEvaluate isAuth st env =
            (case resetPolling (st\<lparr>isEvaluating := True\<rparr>) of
               (st2, es0) \<Rightarrow>
                 (case pollResult isAuth (id_Evaluation data)
                         (st2\<lparr>evaluationStatus := Some data\<rparr>) (poll_replies env) of
                    (st3, es) \<Rightarrow>
                      (st3, es0 @ Post_upload cv project # Post_evaluate ?body
                         # Toast_info ''Evaluation queued.'' # es)))
          \<and> (\<forall>e \<in> set (snd (handleEvaluate isAuth st env)).
                is_poll e \<longrightarrow> e = Get_result (id_Evaluation data))
          \<and> (poll_replies env = [] \<longrightarrow>
                evaluationStatus (fst (handleEvaluate isAuth st env)) = Some data
                \<and> isEvaluating (fst (handleEvaluate isAuth st env))
                \<and> filter is_poll (snd (handleEvaluate isAuth st env))
                    = [Get_result (id_Evaluation data)]
                \<and> last (snd (handleEvaluate isAuth st env)) = Get_result (id_Evaluation data)
                \<and> map_option heading (render_card js (evaluationStatus
                      (fst (handleEvaluate isAuth st env))))
                    = Some (''Job #'' @ id_Evaluation data)
                \<and> map_option badge_text (render_card js (evaluationStatus
                      (fst (handleEvaluate isAuth st env))))
                    = Some (toUpperCase (status_string (status data))))"
      using unf polls none by blast
  qed
  show ?thesis
    using sub first rest by blast
qed


theorem handleEvaluate_request_body_witness:
  "cvFile sample_page = Some (File ''cv.pdf'')
   \<and> projectFile sample_page = Some (File ''report.pdf'')
   \<and> jobTitle sample_page \<noteq> []
   \<and> upload_reply sample_env =
       Inr \<lparr>uploaded_cv_document_id = ''doc-1'', uploaded_project_document_id = ''doc-2''\<rparr>
   \<and> evaluate_reply sample_env = Inr sample_queued
   \<and> poll_replies sample_env = []
   \<and> submitted (snd (handleEvaluate True sample_page sample_env)) =
       [\<lparr>job_title = ''Backend Engineer'', job_id = Some 7,
         cv_document_id = ''doc-1'', project_document_id = ''doc-2''\<rparr>]
   \<and> evaluationStatus (fst (handleEvaluate True sample_page sample_env)) = Some sample_queued
   \<and> last (snd (handleEvaluate True sample_page sample_env)) = Get_result ''job-42''"
proof -
  have h1: "cvFile sample_page = Some (File ''cv.pdf'')"
    and h2: "projectFile sample_page = Some (File ''report.pdf'')"
    and h5: "selectedJobId sample_page = Some 7"
    by (simp_all add: sample_page_def)
  have h3: "jobTitle sample_page \<noteq> []"
    by (simp add: jobTitle_sample)
  have h4: "upload_reply sample_env =
       Inr \<lparr>uploaded_cv_document_id = ''doc-1'', uploaded_project_document_id = ''doc-2''\<rparr>"
    and h6: "evaluate_reply sample_env = Inr sample_queued"
    and h7: "poll_replies sample_env = []"
    by (simp_all add: sample_env_def)
  have id: "id_Evaluation sample_queued = ''job-42''"
    by (simp add: sample_queued_def)
  note t = handleEvaluate_request_body [of True sample_page "File ''cv.pdf''"
      "File ''report.pdf''" sample_env
      "\<lparr>uploaded_cv_document_id = ''doc-1'', uploaded_project_document_id = ''doc-2''\<rparr>"
      sample_queued exact_runtime, OF TrueI h1 h2 h3 h4]
  have c1: "submitted (snd (handleEvaluate True sample_page sample_env)) =
       [\<lparr>job_title = jobTitle sample_page, job_id = selectedJobId sample_page,
         cv_document_id = uploaded_cv_document_id
           \<lparr>uploaded_cv_document_id = ''doc-1'', uploaded_project_document_id = ''doc-2''\<rparr>,
         project_document_id = uploaded_project_document_id
           \<lparr>uploaded_cv_document_id = ''doc-1'', uploaded_project_document_id = ''doc-2''\<rparr>\<rparr>]"
    using t by blast
  have c2: "evaluationStatus (fst (handleEvaluate True sample_page sample_env))
      = Some sample_queued
    \<and> last (snd (handleEvaluate True sample_page sample_env))
      = Get_result (id_Evaluation sample_queued)"
    using t h6 h7 by blast
  show ?thesis
    using c1 c2 h1 h2 h3 h4 h5 h6 h7 id by (simp add: jobTitle_sample)
qed

section \<open>Properties of the polling loop\<close>

lemma poll_pending:
  assumes "pending_status r"
  shows "\<exists>data. poll_response r = Inr data
    \<and> poll a j st r =
        (st\<lparr>evaluationStatus := Some data, pollRef := Some (timer r)\<rparr>,
         [Set_timeout 4000 j], True)"
  using assms
  by (cases "poll_response r") (simp_all add: pending_status_def poll_def)

lemma poll_terminal:
  assumes "poll_response r = Inr data" and "status data = Completed \<or> status data = Failed"
  shows "poll a j st r =
    ((fst (fetchApplications a (st\<lparr>evaluationStatus := Some data, isEvaluating := False\<rparr>)
        (applications_response r)))\<lparr>pollRef := None\<rparr>,
     snd (fetchApplications a (st\<lparr>evaluationStatus := Some data, isEvaluating := False\<rparr>)
        (applications_response r)) @ completion_toast data,
     False)"
  using assms by (auto simp add: poll_def Let_def case_prod_beta)

lemma fetchApplications_evaluating:
  "isEvaluating (fst (fetchApplications a st reply)) = isEvaluating st"
  by (simp add: fetchApplications_def split: sum.splits)

lemma pollResult_pending_prefix:
  assumes "\<forall>r \<in> set pre. pending_status r"
  shows "pollResult a j st (pre @ rest) =
    (fst (pollResult a j (state_after a j st pre) rest),
     concat (map (\<lambda>r. [Get_result j, Set_timeout 4000 j]) pre)
       @ snd (pollResult a j (state_after a j st pre) rest))"
  using assms
proof (induction pre arbitrary: st)
  case Nil
  show ?case by (simp add: state_after_def)
next
  case (Cons r pre)
  obtain data where p: "poll a j st r =
        (st\<lparr>evaluationStatus := Some data, pollRef := Some (timer r)\<rparr>,
         [Set_timeout 4000 j], True)"
    using poll_pending [of r a j st] Cons.prems by auto
  have ih: "pollResult a j (fst (poll a j st r)) (pre @ rest) =
    (fst (pollResult a j (state_after a j (fst (poll a j st r)) pre) rest),
     concat (map (\<lambda>r. [Get_result j, Set_timeout 4000 j]) pre)
       @ snd (pollResult a j (state_after a j (fst (poll a j st r)) pre) rest))"
    using Cons.IH [of "fst (poll a j st r)"] Cons.prems by simp
  have sa: "state_after a j st (r # pre) = state_after a j (fst (poll a j st r)) pre"
    by (simp add: state_after_def)
  show ?case
    using ih p by (simp add: sa)
qed

lemma timeouts_fetchApplications: "filter is_timeout (snd (fetchApplications a st reply)) = []"
  by (simp add: fetchApplications_def split: sum.splits)

lemma timeouts_completion_toast: "filter is_timeout (completion_toast data) = []"
  by (simp add: completion_toast_def truthy_string_def split: optional.splits)

lemma filter_concat_pairs:
  "filter is_timeout (concat (map (\<lambda>r. [Get_result j, Set_timeout 4000 j]) pre))
     = map (\<lambda>r. Set_timeout 4000 j) pre"
  "filter is_poll (concat (map (\<lambda>r. [Get_result j, Set_timeout 4000 j]) pre))
     = map (\<lambda>r. Get_result j) pre"
  by (induction pre) simp_all


lemma pollResult_pending_all:
  assumes "\<forall>r \<in> set pre. pending_status r"
  shows "snd (pollResult a j st pre) =
    concat (map (\<lambda>r. [Get_result j, Set_timeout 4000 j]) pre) @ [Get_result j]"
  using pollResult_pending_prefix [OF assms, of a j st "[]"] by simp

lemma pollResult_terminal_head:
  assumes "poll_response r = Inr data" and "status data = Completed \<or> status data = Failed"
  shows "pollResult a j st (r # post) =
    ((fst (fetchApplications a (st\<lparr>evaluationStatus := Some data, isEvaluating := False\<rparr>)
        (applications_response r)))\<lparr>pollRef := None\<rparr>,
     Get_result j #
       snd (fetchApplications a (st\<lparr>evaluationStatus := Some data, isEvaluating := False\<rparr>)
        (applications_response r)) @ completion_toast data)"
  using poll_terminal [OF assms, of a j st] by simp

lemma fetchApplications_result:
  "a \<Longrightarrow> Get_applications \<in> set (snd (fetchApplications a st reply))"
  "a \<Longrightarrow> reply = Inr apps \<Longrightarrow> applications (fst (fetchApplications a st reply)) = apps"
  "\<not> a \<Longrightarrow> applications (fst (fetchApplications a st reply)) = []"
  by (simp_all add: fetchApplications_def split: sum.splits)

text \<open>
  Claim C5. In a polling sequence started by \<^verbatim>\<open>pollResult\<close>: as long as every answer
  polled so far carries a status that is neither completed nor failed, each is followed
  by scheduling another poll of the same job id 4000 ms later; at the first answer with
  a terminal status no further poll is scheduled, the evaluating flag is cleared, the
  timer reference is reset and \<^verbatim>\<open>fetchApplications\<close> refreshes the applications list;
  whatever the server would answer afterwards is never asked for.
\<close>

theorem pollResult_schedule:
  assumes "\<forall>r \<in> set pre. pending_status r"
  shows
    "snd (pollResult a j st pre) =
       concat (map (\<lambda>r. [Get_result j, Set_timeout 4000 j]) pre) @ [Get_result j]
     \<and> (terminal_status r \<longrightarrow>
          pollResult a j st (pre @ r # post) = pollResult a j st (pre @ [r])
          \<and> filter is_timeout (snd (pollResult a j st (pre @ r # post)))
              = map (\<lambda>r. Set_timeout 4000 j) pre
          \<and> filter is_poll (snd (pollResult a j st (pre @ r # post)))
              = map (\<lambda>r. Get_result j) (pre @ [r])
          \<and> \<not> isEvaluating (fst (pollResult a j st (pre @ r # post)))
          \<and> pollRef (fst (pollResult a j st (pre @ r # post))) = None
          \<and> (a \<longrightarrow> Get_applications \<in> set (snd (pollResult a j st (pre @ r # post))))
          \<and> (a \<and> applications_response r = Inr apps \<longrightarrow>
                applications (fst (pollResult a j st (pre @ r # post))) = apps)
          \<and> (\<exists>data. poll_response r = Inr data
                \<and> pollResult a j st (pre @ r # post) =
                   ((fst (fetchApplications a
                      ((state_after a j st pre)\<lparr>evaluationStatus := Some data,
                         isEvaluating := False\<rparr>) (applications_response r)))\<lparr>pollRef := None\<rparr>,
                    concat (map (\<lambda>r. [Get_result j, Set_timeout 4000 j]) pre)
                      @ Get_result j
                      # snd (fetchApplications a
                          ((state_after a j st pre)\<lparr>evaluationStatus := Some data,
                             isEvaluating := False\<rparr>) (applications_response r))
                      @ completion_toast data)))"
proof -
  have first: "snd (pollResult a j st pre) =
       concat (map (\<lambda>r. [Get_result j, Set_timeout 4000 j]) pre) @ [Get_result j]"
    using assms by (rule pollResult_pending_all)
  have second: "terminal_status r \<longrightarrow>
          pollResult a j st (pre @ r # post) = pollResult a j st (pre @ [r])
          \<and> filter is_timeout (snd (pollResult a j st (pre @ r # post)))
              = map (\<lambda>r. Set_timeout 4000 j) pre
          \<and> filter is_poll (snd (pollResult a j st (pre @ r # post)))
              = map (\<lambda>r. Get_result j) (pre @ [r])
          \<and> \<not> isEvaluating (fst (pollResult a j st (pre @ r # post)))
          \<and> pollRef (fst (pollResult a j st (pre @ r # post))) = None
          \<and> (a \<longrightarrow> Get_applications \<in> set (snd (pollResult a j st (pre @ r # post))))
          \<and> (a \<and> applications_response r = Inr apps \<longrightarrow>
                applications (fst (pollResult a j st (pre @ r # post))) = apps)
          \<and> (\<exists>data. poll_response r = Inr data
                \<and> pollResult a j st (pre @ r # post) =
                   ((fst (fetchApplications a
                      ((state_after a j st pre)\<lparr>evaluationStatus := Some data,
                         isEvaluating := False\<rparr>) (applications_response r)))\<lparr>pollRef := None\<rparr>,
                    concat (map (\<lambda>r. [Get_result j, Set_timeout 4000 j]) pre)
                      @ Get_result j
                      # snd (fetchApplications a
                          ((state_after a j st pre)\<lparr>evaluationStatus := Some data,
                             isEvaluating := False\<rparr>) (applications_response r))
                      @ completion_toast data))"
  proof
    assume "terminal_status r"
    then obtain data where d: "poll_response r = Inr data"
      and t: "status data = Completed \<or> status data = Failed"
      by (cases "poll_response r") (auto simp add: terminal_status_def)
    let ?st = "(state_after a j st pre)\<lparr>evaluationStatus := Some data, isEvaluating := False\<rparr>"
    let ?f = "fetchApplications a ?st (applications_response r)"
    let ?pairs = "concat (map (\<lambda>r. [Get_result j, Set_timeout 4000 j]) pre)"
    have whole: "\<And>rest. pollResult a j st (pre @ r # rest) =
        ((fst ?f)\<lparr>pollRef := None\<rparr>, ?pairs @ Get_result j # snd ?f @ completion_toast data)"
      using pollResult_pending_prefix [OF assms, of a j st]
        pollResult_terminal_head [OF d t, of a j "state_after a j st pre"]
      by simp
    have same: "pollResult a j st (pre @ r # post) = pollResult a j st (pre @ [r])"
      using whole [of post] whole [of "[]"] by simp
    have tm: "filter is_timeout (snd (pollResult a j st (pre @ r # post)))
        = map (\<lambda>r. Set_timeout 4000 j) pre"
      by (simp add: whole filter_concat_pairs timeouts_fetchApplications
          timeouts_completion_toast)
    have pl: "filter is_poll (snd (pollResult a j st (pre @ r # post)))
        = map (\<lambda>r. Get_result j) (pre @ [r])"
      by (simp add: whole filter_concat_pairs polls_fetchApplications polls_completion_toast)
    have ev: "\<not> isEvaluating (fst (pollResult a j st (pre @ r # post)))"
      by (simp add: whole fetchApplications_evaluating)
    have pr: "pollRef (fst (pollResult a j st (pre @ r # post))) = None"
      by (simp add: whole)
    have ga: "a \<longrightarrow> Get_applications \<in> set (snd (pollResult a j st (pre @ r # post)))"
    proof
      assume a
      then have "Get_applications \<in> set (snd ?f)"
        by (rule fetchApplications_result(1))
      then show "Get_applications \<in> set (snd (pollResult a j st (pre @ r # post)))"
        unfolding whole by simp
    qed
    have ap: "a \<and> applications_response r = Inr apps \<longrightarrow>
        applications (fst (pollResult a j st (pre @ r # post))) = apps"
    proof
      assume "a \<and> applications_response r = Inr apps"
      then have "applications (fst ?f) = apps"
        using fetchApplications_result(2) [of a "applications_response r" apps ?st] by blast
      then show "applications (fst (pollResult a j st (pre @ r # post))) = apps"
        unfolding whole by simp
    qed
    show "pollResult a j st (pre @ r # post) = pollResult a j st (pre @ [r])
          \<and> filter is_timeout (snd (pollResult a j st (pre @ r # post)))
              = map (\<lambda>r. Set_timeout 4000 j) pre
          \<and> filter is_poll (snd (pollResult a j st (pre @ r # post)))
              = map (\<lambda>r. Get_result j) (pre @ [r])
          \<and> \<not> isEvaluating (fst (pollResult a j st (pre @ r # post)))
          \<and> pollRef (fst (pollResult a j st (pre @ r # post))) = None
          \<and> (a \<longrightarrow> Get_applications \<in> set (snd (pollResult a j st (pre @ r # post))))
          \<and> (a \<and> applications_response r = Inr apps \<longrightarrow>
                applications (fst (pollResult a j st (pre @ r # post))) = apps)
          \<and> (\<exists>data. poll_response r = Inr data
                \<and> pollResult a j st (pre @ r # post) =
                   ((fst (fetchApplications a
                      ((state_after a j st pre)\<lparr>evaluationStatus := Some data,
                         isEvaluating := False\<rparr>) (applications_response r)))\<lparr>pollRef := None\<rparr>,
                    concat (map (\<lambda>r. [Get_result j, Set_timeout 4000 j]) pre)
                      @ Get_result j
                      # snd (fetchApplications a
                          ((state_after a j st pre)\<lparr>evaluationStatus := Some data,
                             isEvaluating := False\<rparr>) (applications_response r))
                      @ completion_toast data))"
      using same tm pl ev pr ga ap d whole [of post] by blast
  qed
  show ?thesis
    using first second by blast
qed


theorem pollResult_schedule_witness:
  "pending_status (sample_reply sample_queued)
   \<and> pending_status (sample_reply sample_processing)
   \<and> terminal_status (sample_reply sample_completed)
   \<and> snd (pollResult True ''job-42'' sample_page
         [sample_reply sample_queued, sample_reply sample_processing])
       = [Get_result ''job-42'', Set_timeout 4000 ''job-42'',
          Get_result ''job-42'', Set_timeout 4000 ''job-42'', Get_result ''job-42'']
   \<and> filter is_timeout (snd (pollResult True ''job-42'' sample_page
         [sample_reply sample_queued, sample_reply sample_processing,
          sample_reply sample_completed, sample_reply sample_processing]))
       = [Set_timeout 4000 ''job-42'', Set_timeout 4000 ''job-42'']
   \<and> filter is_poll (snd (pollResult True ''job-42'' sample_page
         [sample_reply sample_queued, sample_reply sample_processing,
          sample_reply sample_completed, sample_reply sample_processing]))
       = [Get_result ''job-42'', Get_result ''job-42'', Get_result ''job-42'']
   \<and> \<not> isEvaluating (fst (pollResult True ''job-42'' sample_page
         [sample_reply sample_queued, sample_reply sample_processing,
          sample_reply sample_completed, sample_reply sample_processing]))
   \<and> pollRef (fst (pollResult True ''job-42'' sample_page
         [sample_reply sample_queued, sample_reply sample_processing,
          sample_reply sample_completed, sample_reply sample_processing])) = None"
proof -
  have p1: "pending_status (sample_reply sample_queued)"
    by (simp add: pending_status_def sample_reply_def sample_queued_def)
  have p2: "pending_status (sample_reply sample_processing)"
    by (simp add: pending_status_def sample_reply_def sample_processing_def)
  have t: "terminal_status (sample_reply sample_completed)"
    by (simp add: terminal_status_def sample_reply_def sample_completed_def)
  have pre: "\<forall>r \<in> set [sample_reply sample_queued, sample_reply sample_processing].
      pending_status r"
    using p1 p2 by simp
  note th = pollResult_schedule [OF pre, of True "''job-42''" sample_page
      "sample_reply sample_completed" "[sample_reply sample_processing]"]
  have a: "snd (pollResult True ''job-42'' sample_page
         [sample_reply sample_queued, sample_reply sample_processing])
       = concat (map (\<lambda>r. [Get_result ''job-42'', Set_timeout 4000 ''job-42''])
           [sample_reply sample_queued, sample_reply sample_processing])
         @ [Get_result ''job-42'']"
    using th by blast
  have b: "filter is_timeout (snd (pollResult True ''job-42'' sample_page
         ([sample_reply sample_queued, sample_reply sample_processing]
            @ sample_reply sample_completed # [sample_reply sample_processing])))
       = map (\<lambda>r. Set_timeout 4000 ''job-42'')
           [sample_reply sample_queued, sample_reply sample_processing]
    \<and> filter is_poll (snd (pollResult True ''job-42'' sample_page
         ([sample_reply sample_queued, sample_reply sample_processing]
            @ sample_reply sample_completed # [sample_reply sample_processing])))
       = map (\<lambda>r. Get_result ''job-42'')
           ([sample_reply sample_queued, sample_reply sample_processing]
             @ [sample_reply sample_completed])
    \<and> \<not> isEvaluating (fst (pollResult True ''job-42'' sample_page
         ([sample_reply sample_queued, sample_reply sample_processing]
            @ sample_reply sample_completed # [sample_reply sample_processing])))
    \<and> pollRef (fst (pollResult True ''job-42'' sample_page
         ([sample_reply sample_queued, sample_reply sample_processing]
            @ sample_reply sample_completed # [sample_reply sample_processing]))) = None"
    using th t by blast
  show ?thesis
    using p1 p2 t a b by simp
qed


lemma fetchApplications_status:
  "evaluationStatus (fst (fetchApplications a st reply)) = evaluationStatus st"
  by (simp add: fetchApplications_def split: sum.splits)

lemma fetchApplications_error_toasts:
  "filter is_error_toast (snd (fetchApplications a st reply)) =
     (if a \<and> isl reply then [Toast_error ''Failed to load applications.''] else [])"
  by (simp add: fetchApplications_def split: sum.splits)

text \<open>
  Claim C6. When \<^verbatim>\<open>pollResult\<close> observes the status failed and the polled payload
  carries a non-empty error string, that string is raised as an error toast (and shown in
  the error paragraph of the card). When the status failed arrives with an empty or
  absent error field, no error message is raised for the job, though polling stops all
  the same: \<^verbatim>\<open>poll\<close> raises no toast of its own and the card shows no error paragraph.
  What the run does besides is the applications refresh, whose effects are those of
  \<^verbatim>\<open>fetchApplications\<close>: it raises no toast when its request is answered or the user is
  not authenticated, and its own "Failed to load applications." when that request fails.
\<close>

theorem poll_failed_error:
  assumes "poll_response r = Inr data" and "status data = Failed"
  shows
    "(error data = Defined m \<and> m \<noteq> [] \<longrightarrow>
        fst (snd (poll a j st r)) =
          snd (fetchApplications a (st\<lparr>evaluationStatus := Some data, isEvaluating := False\<rparr>)
                (applications_response r)) @ [Toast_error m]
        \<and> map_option error_paragraph (render_card js (evaluationStatus (fst (poll a j st r))))
            = Some (Some m))
     \<and> (\<not> (\<exists>e. error data = Defined e \<and> e \<noteq> []) \<longrightarrow>
        fst (snd (poll a j st r)) =
          snd (fetchApplications a (st\<lparr>evaluationStatus := Some data, isEvaluating := False\<rparr>)
                (applications_response r))
        \<and> filter is_error_toast (fst (snd (poll a j st r))) =
            (if a \<and> isl (applications_response r)
             then [Toast_error ''Failed to load applications.''] else [])
        \<and> map_option error_paragraph (render_card js (evaluationStatus (fst (poll a j st r))))
            = Some None)
     \<and> \<not> snd (snd (poll a j st r))
     \<and> filter is_timeout (fst (snd (poll a j st r))) = []
     \<and> pollResult a j st (r # post) = (fst (poll a j st r), Get_result j # fst (snd (poll a j st r)))
     \<and> (\<not> (\<exists>e. error data = Defined e \<and> e \<noteq> [])
          \<and> (\<not> a \<or> \<not> isl (applications_response r)) \<longrightarrow>
        filter is_error_toast (fst (snd (poll a j st r))) = [])
     \<and> (\<not> (\<exists>e. error data = Defined e \<and> e \<noteq> []) \<longrightarrow>
        (\<forall>t. Toast_error t \<in> set (fst (snd (poll a j st r))) \<longrightarrow>
           t = ''Failed to load applications.''))"
proof -
  let ?st = "st\<lparr>evaluationStatus := Some data, isEvaluating := False\<rparr>"
  let ?f = "fetchApplications a ?st (applications_response r)"
  have p: "poll a j st r = ((fst ?f)\<lparr>pollRef := None\<rparr>, snd ?f @ completion_toast data, False)"
    using assms poll_terminal [of r data a j st] by simp
  have es: "evaluationStatus (fst (poll a j st r)) = Some data"
    by (simp add: p fetchApplications_status)
  have c1: "error data = Defined m \<and> m \<noteq> [] \<longrightarrow>
        fst (snd (poll a j st r)) = snd ?f @ [Toast_error m]
        \<and> map_option error_paragraph (render_card js (evaluationStatus (fst (poll a j st r))))
            = Some (Some m)"
    using assms(2)
    by (simp add: es render_card_def) (simp add: p completion_toast_def truthy_string_def)
  have c2: "\<not> (\<exists>e. error data = Defined e \<and> e \<noteq> []) \<longrightarrow>
        fst (snd (poll a j st r)) = snd ?f
        \<and> filter is_error_toast (fst (snd (poll a j st r))) =
            (if a \<and> isl (applications_response r)
             then [Toast_error ''Failed to load applications.''] else [])
        \<and> map_option error_paragraph (render_card js (evaluationStatus (fst (poll a j st r))))
            = Some None"
  proof
    assume n: "\<not> (\<exists>e. error data = Defined e \<and> e \<noteq> [])"
    have ct: "completion_toast data = []"
      using n assms(2)
      by (cases "error data") (simp_all add: completion_toast_def truthy_string_def)
    have ep: "map_option error_paragraph (render_card js (Some data)) = Some None"
      using n by (cases "error data") (simp_all add: render_card_def truthy_string_def)
    show "fst (snd (poll a j st r)) = snd ?f
        \<and> filter is_error_toast (fst (snd (poll a j st r))) =
            (if a \<and> isl (applications_response r)
             then [Toast_error ''Failed to load applications.''] else [])
        \<and> map_option error_paragraph (render_card js (evaluationStatus (fst (poll a j st r))))
            = Some None"
    proof -
      have e1: "fst (snd (poll a j st r)) = snd ?f"
        by (simp add: p ct)
      have e2: "filter is_error_toast (fst (snd (poll a j st r))) =
            (if a \<and> isl (applications_response r)
             then [Toast_error ''Failed to load applications.''] else [])"
        unfolding e1 by (rule fetchApplications_error_toasts)
      have e3: "map_option error_paragraph
          (render_card js (evaluationStatus (fst (poll a j st r)))) = Some None"
        using ep by (simp add: es)
      show ?thesis
        using e1 e2 e3 by blast
    qed
  qed
  have c3: "\<not> snd (snd (poll a j st r))"
    by (simp add: p)
  have c4: "filter is_timeout (fst (snd (poll a j st r))) = []"
    by (simp add: p timeouts_fetchApplications timeouts_completion_toast)
  have c5: "pollResult a j st (r # post) =
      (fst (poll a j st r), Get_result j # fst (snd (poll a j st r)))"
    by (simp add: p)
  have c6: "\<not> (\<exists>e. error data = Defined e \<and> e \<noteq> [])
          \<and> (\<not> a \<or> \<not> isl (applications_response r)) \<longrightarrow>
        filter is_error_toast (fst (snd (poll a j st r))) = []"
  proof
    assume h: "\<not> (\<exists>e. error data = Defined e \<and> e \<noteq> [])
          \<and> (\<not> a \<or> \<not> isl (applications_response r))"
    then have "filter is_error_toast (fst (snd (poll a j st r))) =
        (if a \<and> isl (applications_response r)
         then [Toast_error ''Failed to load applications.''] else [])"
      using c2 by blast
    moreover have "\<not> (a \<and> isl (applications_response r))"
      using h by blast
    ultimately show "filter is_error_toast (fst (snd (poll a j st r))) = []"
      by (simp only: if_False)
  qed
  have c7: "\<not> (\<exists>e. error data = Defined e \<and> e \<noteq> []) \<longrightarrow>
        (\<forall>t. Toast_error t \<in> set (fst (snd (poll a j st r))) \<longrightarrow>
           t = ''Failed to load applications.'')"
  proof (intro impI allI)
    fix t
    assume n: "\<not> (\<exists>e. error data = Defined e \<and> e \<noteq> [])"
      and t: "Toast_error t \<in> set (fst (snd (poll a j st r)))"
    have "fst (snd (poll a j st r)) = snd ?f"
      using c2 n by blast
    then have "Toast_error t \<in> set (snd ?f)"
      using t by simp
    then show "t = ''Failed to load applications.''"
      using fetchApplications_effects [of a ?st "applications_response r"] by auto
  qed
  show ?thesis
    using c1 c2 c3 c4 c5 c6 c7 by blast
qed

theorem poll_failed_error_witness:
  "poll_response (sample_reply (sample_failed (Defined ''Document not found''))) =
      Inr (sample_failed (Defined ''Document not found''))
   \<and> status (sample_failed (Defined ''Document not found'')) = Failed
   \<and> error (sample_failed (Defined ''Document not found'')) = Defined ''Document not found''
   \<and> fst (snd (poll True ''job-42'' sample_page
        (sample_reply (sample_failed (Defined ''Document not found'')))))
       = [Get_applications, Toast_error ''Document not found'']
   \<and> poll_response (sample_reply (sample_failed Null)) = Inr (sample_failed Null)
   \<and> status (sample_failed Null) = Failed
   \<and> error (sample_failed Null) = Null
   \<and> filter is_error_toast (fst (snd (poll True ''job-42'' sample_page
        (sample_reply (sample_failed Null))))) = []
   \<and> \<not> snd (snd (poll True ''job-42'' sample_page (sample_reply (sample_failed Null))))"
proof -
  let ?d = "sample_failed (Defined ''Document not found'')"
  have h1: "poll_response (sample_reply ?d) = Inr ?d"
    and h1': "poll_response (sample_reply (sample_failed Null)) = Inr (sample_failed Null)"
    and ar: "\<And>d. applications_response (sample_reply d) = Inr []"
    by (simp_all add: sample_reply_def)
  have h2: "status ?d = Failed" and h3: "error ?d = Defined ''Document not found''"
    and h2': "status (sample_failed Null) = Failed" and h3': "error (sample_failed Null) = Null"
    by (simp_all add: sample_failed_def)
  have ne: "''Document not found'' \<noteq> []" by simp
  have r1: "fst (snd (poll True ''job-42'' sample_page (sample_reply ?d))) =
      snd (fetchApplications True
            (sample_page\<lparr>evaluationStatus := Some ?d, isEvaluating := False\<rparr>)
            (applications_response (sample_reply ?d))) @ [Toast_error ''Document not found'']"
    using poll_failed_error [OF h1 h2, of "''Document not found''" True "''job-42''" sample_page]
      h3 ne by blast
  have n: "\<not> (\<exists>e. error (sample_failed Null) = Defined e \<and> e \<noteq> [])"
    by (simp add: h3')
  have r2: "filter is_error_toast (fst (snd (poll True ''job-42'' sample_page
        (sample_reply (sample_failed Null))))) =
      (if True \<and> isl (applications_response (sample_reply (sample_failed Null)))
       then [Toast_error ''Failed to load applications.''] else [])
    \<and> \<not> snd (snd (poll True ''job-42'' sample_page (sample_reply (sample_failed Null))))"
    using poll_failed_error [OF h1' h2', of _ True "''job-42''" sample_page] n by blast
  show ?thesis
    using h1 h2 h3 h1' h2' h3' r1 r2 by (simp add: ar fetchApplications_def)
qed

section \<open>Properties of filtering and pagination\<close>

lemma startsWith_iff: "startsWith s t \<longleftrightarrow> (\<exists>q. s = t @ q)"
  by (induction s t rule: startsWith.induct) auto

lemma includes_string_iff: "includes_string s t \<longleftrightarrow> (\<exists>p q. s = p @ t @ q)"
proof (induction s)
  case Nil
  show ?case by simp
next
  case (Cons c s)
  have "(\<exists>p q. c # s = p @ t @ q) \<longleftrightarrow> (\<exists>q. c # s = t @ q) \<or> (\<exists>p q. s = p @ t @ q)"
  proof
    assume "\<exists>p q. c # s = p @ t @ q"
    then obtain p q where pq: "c # s = p @ t @ q" by blast
    show "(\<exists>q. c # s = t @ q) \<or> (\<exists>p q. s = p @ t @ q)"
    proof (cases p)
      case Nil
      then show ?thesis using pq by auto
    next
      case (Cons a p')
      then have "s = p' @ t @ q" using pq by simp
      then show ?thesis by blast
    qed
  next
    assume "(\<exists>q. c # s = t @ q) \<or> (\<exists>p q. s = p @ t @ q)"
    then show "\<exists>p q. c # s = p @ t @ q"
    proof
      assume "\<exists>q. c # s = t @ q"
      then obtain q where "c # s = [] @ t @ q" by auto
      then show ?thesis by blast
    next
      assume "\<exists>p q. s = p @ t @ q"
      then obtain p q where "c # s = (c # p) @ t @ q" by auto
      then show ?thesis by blast
    qed
  qed
  then show ?case
    using Cons.IH by (simp add: startsWith_iff)
qed

lemma totalPages_ge_1: "1 \<le> totalPages st"
  by (simp add: totalPages_def)

lemma totalPages_cong:
  "jobs a = jobs b \<Longrightarrow> searchTitle a = searchTitle b \<Longrightarrow> searchLocation a = searchLocation b
   \<Longrightarrow> totalPages a = totalPages b"
  by (simp add: totalPages_def filteredJobs_def)

lemma run_effects_frame:
  "jobs (run_effects prev cur) = jobs cur"
  "searchTitle (run_effects prev cur) = searchTitle cur"
  "searchLocation (run_effects prev cur) = searchLocation cur"
  by (simp_all add: run_effects_def Let_def)

lemma run_effects_fix:
  "currentPage (run_effects prev cur) \<noteq> currentPage cur \<Longrightarrow>
   run_effects cur (run_effects prev cur) = run_effects prev cur"
proof -
  assume c: "currentPage (run_effects prev cur) \<noteq> currentPage cur"
  let ?n = "run_effects prev cur"
  have tp: "totalPages ?n = totalPages cur"
    by (rule totalPages_cong) (simp_all add: run_effects_frame)
  have le: "currentPage ?n \<le> totalPages ?n"
    using c totalPages_ge_1 [of cur] tp
    by (auto simp add: run_effects_def Let_def split: if_splits)
  show ?thesis
    using le by (simp add: run_effects_def [of cur ?n] run_effects_frame Let_def)
qed

lemma settle_eq:
  "settle prev cur =
     (if currentPage (run_effects prev cur) = currentPage cur then cur else run_effects prev cur)"
proof (cases "currentPage (run_effects prev cur) = currentPage cur")
  case True
  then show ?thesis by (simp add: settle.simps [of prev cur])
next
  case False
  have "settle cur (run_effects prev cur) = run_effects prev cur"
    using run_effects_fix [OF False] by (simp add: settle.simps [of cur "run_effects prev cur"])
  then show ?thesis
    using False by (simp add: settle.simps [of prev cur])
qed

lemma settle_frame:
  "jobs (settle prev cur) = jobs cur"
  "searchTitle (settle prev cur) = searchTitle cur"
  "searchLocation (settle prev cur) = searchLocation cur"
  by (simp_all add: settle_eq run_effects_frame)

lemma settle_ok:
  assumes "page_ok prev" and "1 \<le> currentPage cur"
  shows "page_ok (settle prev cur)"
proof -
  have tp: "totalPages (settle prev cur) = totalPages cur"
    by (rule totalPages_cong) (simp_all add: settle_frame)
  have "1 \<le> currentPage (settle prev cur) \<and> currentPage (settle prev cur) \<le> totalPages cur"
    using assms totalPages_ge_1 [of cur]
    by (auto simp add: settle_eq run_effects_def page_ok_def Let_def split: if_splits)
  then show ?thesis
    by (simp add: page_ok_def tp)
qed

lemma step_ok: "page_ok st \<Longrightarrow> page_ok (step st ev)"
  unfolding step_def
  by (rule settle_ok) (cases ev; auto simp add: page_ok_def)+

lemma run_page_ok: "page_ok (run_page evs)"
proof -
  have "page_ok st \<Longrightarrow> page_ok (foldl step st evs)" for st
    by (induction evs arbitrary: st) (simp_all add: step_ok)
  moreover have "page_ok initial_page"
    by (simp add: page_ok_def initial_page_def totalPages_def)
  ultimately show ?thesis
    by (simp add: run_page_def)
qed


lemma slice_page:
  assumes "0 \<le> start"
  shows "slice xs start (start + 5) = take 5 (drop (nat start) xs)"
proof -
  obtain n where n: "start = int n"
    using assms by (metis nat_0_le)
  have "slice xs (int n) (int n + 5) = take 5 (drop n xs)"
  proof (cases "n \<le> length xs")
    case True
    have "nat (min (int n + 5) (int (length xs)) - int n) = min 5 (length xs - n)"
      using True by (auto simp add: min_def)
    moreover have "take (min 5 (length xs - n)) (drop n xs) = take 5 (drop n xs)"
      by (cases "5 \<le> length xs - n") (simp_all add: min_def)
    ultimately show ?thesis
      using True by (simp add: slice_def Let_def)
  next
    case False
    then show ?thesis
      by (simp add: slice_def Let_def min_def)
  qed
  then show ?thesis
    by (simp add: n)
qed

lemma paginatedJobs_take:
  assumes "1 \<le> currentPage st"
  shows "paginatedJobs st = take 5 (drop (nat ((currentPage st - 1) * 5)) (filteredJobs st))"
  using assms slice_page [of "(currentPage st - 1) * 5" "filteredJobs st"]
  by (simp add: paginatedJobs_def PAGE_SIZE_def Let_def)

lemma filteredJobs_member:
  assumes "job \<in> set (filteredJobs st)"
  shows "job \<in> set (jobs st)
    \<and> (\<exists>p q. toLowerCase (title job) = p @ toLowerCase (searchTitle st) @ q)
    \<and> (\<exists>p q. toLowerCase (or_empty (location job)) = p @ toLowerCase (searchLocation st) @ q)"
  using assms by (simp add: filteredJobs_def Let_def includes_string_iff)

text \<open>
  Claim C9. After every sequence of job fetches, search edits and page clicks:
  \<^verbatim>\<open>paginatedJobs\<close> has at most 5 jobs and is the slice of \<^verbatim>\<open>filteredJobs\<close> from index
  \<open>(p - 1) * 5\<close> to \<open>p * 5\<close> for the current page \<open>p\<close>; \<^verbatim>\<open>totalPages\<close> is at least 1;
  \<^verbatim>\<open>currentPage\<close> lies between 1 and \<^verbatim>\<open>totalPages\<close> (the effects reduce it when the
  list shrinks, the Previous and Next handlers clamp it); and every displayed job is an
  element of the fetched jobs list whose lower-cased title and location contain the
  lower-cased search strings.
\<close>

theorem pagination_invariant:
  "length (paginatedJobs (run_page evs)) \<le> 5
   \<and> paginatedJobs (run_page evs) =
       slice (filteredJobs (run_page evs)) ((currentPage (run_page evs) - 1) * 5)
         (currentPage (run_page evs) * 5)
   \<and> paginatedJobs (run_page evs) =
       take 5 (drop (nat ((currentPage (run_page evs) - 1) * 5)) (filteredJobs (run_page evs)))
   \<and> 1 \<le> totalPages (run_page evs)
   \<and> 1 \<le> currentPage (run_page evs)
   \<and> currentPage (run_page evs) \<le> totalPages (run_page evs)
   \<and> (\<forall>job \<in> set (paginatedJobs (run_page evs)).
         job \<in> set (jobs (run_page evs))
         \<and> (\<exists>p q. toLowerCase (title job) = p @ toLowerCase (searchTitle (run_page evs)) @ q)
         \<and> (\<exists>p q. toLowerCase (or_empty (location job))
                = p @ toLowerCase (searchLocation (run_page evs)) @ q))"
proof -
  let ?st = "run_page evs"
  have ok: "1 \<le> currentPage ?st" "currentPage ?st \<le> totalPages ?st"
    using run_page_ok [of evs] by (simp_all add: page_ok_def)
  have tk: "paginatedJobs ?st = take 5 (drop (nat ((currentPage ?st - 1) * 5)) (filteredJobs ?st))"
    using ok(1) by (rule paginatedJobs_take)
  have sl: "paginatedJobs ?st =
      slice (filteredJobs ?st) ((currentPage ?st - 1) * 5) (currentPage ?st * 5)"
    by (simp add: paginatedJobs_def PAGE_SIZE_def Let_def algebra_simps)
  have len: "length (paginatedJobs ?st) \<le> 5"
    by (simp add: tk)
  have mem: "\<forall>job \<in> set (paginatedJobs ?st).
         job \<in> set (jobs ?st)
         \<and> (\<exists>p q. toLowerCase (title job) = p @ toLowerCase (searchTitle ?st) @ q)
         \<and> (\<exists>p q. toLowerCase (or_empty (location job))
                = p @ toLowerCase (searchLocation ?st) @ q)"
  proof
    fix job
    assume "job \<in> set (paginatedJobs ?st)"
    then have "job \<in> set (filteredJobs ?st)"
      unfolding tk by (meson in_set_dropD in_set_takeD)
    then show "job \<in> set (jobs ?st)
         \<and> (\<exists>p q. toLowerCase (title job) = p @ toLowerCase (searchTitle ?st) @ q)
         \<and> (\<exists>p q. toLowerCase (or_empty (location job))
                = p @ toLowerCase (searchLocation ?st) @ q)"
      by (rule filteredJobs_member)
  qed
  show ?thesis
    using len sl tk totalPages_ge_1 [of ?st] ok mem by blast
qed





lemma includes_string_empty: "includes_string s [] = True"
  by (cases s) simp_all

lemma filteredJobs_no_search:
  "searchTitle st = [] \<Longrightarrow> searchLocation st = [] \<Longrightarrow> filteredJobs st = jobs st"
  by (simp add: filteredJobs_def toLowerCase_def includes_string_empty)

lemma totalPages_no_search:
  "searchTitle st = [] \<Longrightarrow> searchLocation st = [] \<Longrightarrow>
   totalPages st = max 1 \<lceil>(of_nat (length (jobs st)) :: rat) / 5\<rceil>"
  by (simp add: totalPages_def filteredJobs_no_search PAGE_SIZE_def)

lemma ceiling_7_5: "\<lceil>(7::rat) / 5\<rceil> = 2"
  by (rule ceiling_unique) simp_all

lemma ceiling_3_5: "\<lceil>(3::rat) / 5\<rceil> = 1"
  by (rule ceiling_unique) simp_all

lemma length_sample_jobs: "length sample_jobs = 7"
  by (simp add: sample_jobs_def)



lemma run_sample_events:
  "run_page sample_events = initial_page\<lparr>jobs := sample_jobs, currentPage := 2\<rparr>"
  by (simp add: sample_events_def run_page_def step_def settle_eq run_effects_def Let_def
      initial_page_def totalPages_no_search length_sample_jobs ceiling_7_5)

lemma run_shrinking_events:
  "run_page shrinking_events = initial_page\<lparr>jobs := take 3 sample_jobs, currentPage := 1\<rparr>"
  by (simp add: shrinking_events_def run_page_def step_def settle_eq run_effects_def Let_def
      initial_page_def totalPages_no_search length_sample_jobs ceiling_7_5 ceiling_3_5)

lemma run_searching_events:
  "map id_Job (paginatedJobs (run_page searching_events)) = [1]"
  by code_simp

theorem pagination_invariant_witness:
  "currentPage (run_page sample_events) = 2
   \<and> totalPages (run_page sample_events) = 2
   \<and> paginatedJobs (run_page sample_events) =
       [sample_job 6 ''Frontend ENGINEER'' (Defined ''remote''),
        sample_job 7 ''Recruiter'' (Defined ''Bandung'')]
   \<and> sample_job 7 ''Recruiter'' (Defined ''Bandung'') \<in> set (jobs (run_page sample_events))
   \<and> currentPage (run_page shrinking_events) = 1
   \<and> totalPages (run_page shrinking_events) = 1
   \<and> map id_Job (paginatedJobs (run_page shrinking_events)) = [1, 2, 3]
   \<and> map id_Job (paginatedJobs (run_page searching_events)) = [1]
   \<and> length (paginatedJobs (run_page searching_events)) \<le> 5"
proof -
  note a = pagination_invariant [of sample_events]
  note b = pagination_invariant [of shrinking_events]
  note c = pagination_invariant [of searching_events]
  have cp: "currentPage (run_page sample_events) = 2"
    by (simp add: run_sample_events)
  have fj: "filteredJobs (run_page sample_events) = sample_jobs"
    by (simp add: run_sample_events filteredJobs_no_search initial_page_def)
  have tp: "totalPages (run_page sample_events) = 2"
    by (simp add: run_sample_events totalPages_no_search initial_page_def length_sample_jobs
        ceiling_7_5)
  have pj: "paginatedJobs (run_page sample_events) =
      take 5 (drop (nat ((currentPage (run_page sample_events) - 1) * 5))
        (filteredJobs (run_page sample_events)))"
    using a by blast
  have pj': "paginatedJobs (run_page sample_events) =
       [sample_job 6 ''Frontend ENGINEER'' (Defined ''remote''),
        sample_job 7 ''Recruiter'' (Defined ''Bandung'')]"
    unfolding pj cp fj by (simp add: sample_jobs_def)
  have mem: "\<forall>job \<in> set (paginatedJobs (run_page sample_events)).
      job \<in> set (jobs (run_page sample_events))"
    using a by blast
  have m7: "sample_job 7 ''Recruiter'' (Defined ''Bandung'') \<in> set (jobs (run_page sample_events))"
    using mem by (simp add: pj')
  have cp2: "currentPage (run_page shrinking_events) = 1"
    by (simp add: run_shrinking_events)
  have fj2: "filteredJobs (run_page shrinking_events) = take 3 sample_jobs"
    by (simp add: run_shrinking_events filteredJobs_no_search initial_page_def)
  have tp2: "totalPages (run_page shrinking_events) = 1"
    by (simp add: run_shrinking_events totalPages_no_search initial_page_def
        length_sample_jobs ceiling_3_5)
  have pj2: "paginatedJobs (run_page shrinking_events) =
      take 5 (drop (nat ((currentPage (run_page shrinking_events) - 1) * 5))
        (filteredJobs (run_page shrinking_events)))"
    using b by blast
  have pj2': "map id_Job (paginatedJobs (run_page shrinking_events)) = [1, 2, 3]"
    unfolding pj2 cp2 fj2 by (simp add: sample_jobs_def sample_job_def)
  have len: "length (paginatedJobs (run_page searching_events)) \<le> 5"
    using c by blast
  show ?thesis
    using cp tp pj' m7 cp2 tp2 pj2' run_searching_events len by simp
qed

section \<open>Properties of the evaluation job and of the card\<close>

lemma store_invariant_update:
  assumes "store_invariant store" and "job_invariant job" and "job_identity job = i"
  shows "store_invariant (store(i \<mapsto> job))"
  using assms by (simp add: store_invariant_def)

lemma store_invariant_job:
  assumes "store_invariant store" and "store i = Some job"
  shows "job_invariant job" and "job_identity job = i"
  using assms by (simp_all add: store_invariant_def)

lemma transition_invariant:
  assumes inv: "store_invariant store"
    and tr: "transition store i newStatus updates = Some store'"
    and upd: "\<And>job. job_invariant job \<Longrightarrow> next_status (job_status job) newStatus \<Longrightarrow>
      job_invariant ((updates job)\<lparr>job_status := newStatus\<rparr>)
      \<and> job_identity (updates job) = job_identity job"
  shows "store_invariant store'"
proof -
  from tr obtain job where j: "store i = Some job"
    and n: "next_status (job_status job) newStatus"
    and s: "store' = store(i \<mapsto> (updates job)\<lparr>job_status := newStatus\<rparr>)"
    by (auto simp add: transition_def split: option.splits if_splits)
  have ji: "job_invariant job" "job_identity job = i"
    using store_invariant_job [OF inv j] by simp_all
  have "job_invariant ((updates job)\<lparr>job_status := newStatus\<rparr>)"
    and "job_identity ((updates job)\<lparr>job_status := newStatus\<rparr>) = i"
    using upd [OF ji(1) n] ji(2) by simp_all
  then show ?thesis
    unfolding s using inv by (rule store_invariant_update [rotated])
qed

lemma orchestrate_invariant:
  assumes "store_invariant store" and "orchestrate store ev = Some store'"
  shows "store_invariant store'"
proof (cases ev)
  case (Submit i request now)
  let ?job = "\<lparr>job_identity = i, job_status = Queued, job_inputs = request, job_result = None,
        job_error = None, job_queued_at = Some now, job_started_at = None,
        job_finished_at = None\<rparr>"
  have s: "store' = store(i \<mapsto> ?job)"
    using assms(2) Submit by (simp add: create_job_def split: option.splits)
  have "job_invariant ?job"
    by (simp add: job_invariant_def)
  then show ?thesis
    unfolding s using assms(1) by (intro store_invariant_update) simp_all
next
  case (Claim i now)
  then have "transition store i Processing (\<lambda>job. job\<lparr>job_started_at := Some now\<rparr>) = Some store'"
    using assms(2) by simp
  with assms(1) show ?thesis
    by (rule transition_invariant) (auto simp add: job_invariant_def elim: next_status.elims)
next
  case (Complete i res now)
  then have "transition store i Completed
      (\<lambda>job. job\<lparr>job_result := Some res, job_finished_at := Some now\<rparr>) = Some store'"
    using assms(2) by simp
  with assms(1) show ?thesis
    by (rule transition_invariant) (auto simp add: job_invariant_def elim: next_status.elims)
next
  case (Fail i message now)
  then have ne: "message \<noteq> []" and tr: "transition store i Failed
      (\<lambda>job. job\<lparr>job_error := Some message, job_finished_at := Some now\<rparr>) = Some store'"
    using assms(2) by (simp_all split: if_splits)
  from assms(1) tr show ?thesis
    by (rule transition_invariant)
      (use ne in \<open>auto simp add: job_invariant_def elim: next_status.elims\<close>)
qed

lemma run_invariant:
  assumes "store_invariant store" and "run_orchestrator store evs = Some store'"
  shows "store_invariant store'"
  using assms
proof (induction evs arbitrary: store)
  case Nil
  then show ?case by simp
next
  case (Cons ev evs)
  then show ?case
    by (auto split: option.splits dest: orchestrate_invariant)
qed

lemma orchestrate_status:
  assumes "orchestrate store ev = Some store'" and "store i = Some job"
  shows "\<exists>job'. store' i = Some job'
    \<and> (job_status job' = job_status job \<or> next_status (job_status job) (job_status job'))"
proof (cases ev)
  case (Submit k request now)
  then show ?thesis
    using assms by (auto simp add: create_job_def split: option.splits if_splits)
next
  case (Claim k now)
  then show ?thesis
    using assms by (auto simp add: transition_def split: option.splits if_splits)
next
  case (Complete k res now)
  then show ?thesis
    using assms by (auto simp add: transition_def split: option.splits if_splits)
next
  case (Fail k message now)
  then show ?thesis
    using assms by (auto simp add: transition_def split: option.splits if_splits)
qed

lemma run_status:
  assumes "run_orchestrator store evs = Some store'" and "store i = Some job"
  shows "\<exists>job'. store' i = Some job' \<and> next_status\<^sup>*\<^sup>* (job_status job) (job_status job')"
  using assms
proof (induction evs arbitrary: store job)
  case Nil
  then show ?case by simp
next
  case (Cons ev evs)
  from Cons.prems obtain mid where m: "orchestrate store ev = Some mid"
    and r: "run_orchestrator mid evs = Some store'"
    by (auto split: option.splits)
  from orchestrate_status [OF m Cons.prems(2)] obtain job1 where j1: "mid i = Some job1"
    and s1: "job_status job1 = job_status job \<or> next_status (job_status job) (job_status job1)"
    by blast
  from Cons.IH [OF r j1] obtain job' where j': "store' i = Some job'"
    and s': "next_status\<^sup>*\<^sup>* (job_status job1) (job_status job')"
    by blast
  have "next_status\<^sup>*\<^sup>* (job_status job) (job_status job')"
    using s1 s' by (auto intro: converse_rtranclp_into_rtranclp)
  then show ?case
    using j' by blast
qed

lemma terminal_stays:
  assumes "next_status\<^sup>*\<^sup>* a b" and "a = Completed \<or> a = Failed"
  shows "b = a"
  using assms by (induction rule: rtranclp_induct) (auto elim: next_status.elims)


lemma store_invariant_empty: "store_invariant Map.empty"
  by (simp add: store_invariant_def)

lemma poll_evaluation_job:
  assumes "poll_evaluation store i = Some e"
  shows "\<exists>job. store i = Some job \<and> status e = job_status job
    \<and> result e = present (job_result job) \<and> error e = present (job_error job)
    \<and> started_at e = present (job_started_at job)"
  using assms by (auto simp add: poll_evaluation_def get_job_def split: option.splits)

lemma present_defined: "(\<exists>x. present v = Defined x) = (v \<noteq> None)"
  by (cases v) (simp_all add: present_def)

lemma present_eq: "(present v = Defined x) = (v = Some x)"
  by (cases v) (simp_all add: present_def)

lemma card_parts:
  "(\<exists>b. map_option body (render_card js (Some e)) = Some (Some b)) = (\<exists>r. result e = Defined r)"
  "(\<exists>p. map_option error_paragraph (render_card js (Some e)) = Some (Some p))
     = (\<exists>m. error e = Defined m \<and> m \<noteq> [])"
  by (cases "result e"; cases "error e"; simp add: render_card_def truthy_string_def)+

text \<open>
  Claim C2. For every evaluation status that the poll endpoint returns, \<^verbatim>\<open>result\<close> is
  present if and only if the status is completed, and \<^verbatim>\<open>error\<close> is present if and
  only if the status is failed; and the evaluation card of the consumer renders the
  result body exactly when \<^verbatim>\<open>result\<close> is present and the error paragraph exactly when
  \<^verbatim>\<open>error\<close> is a non-empty string: for whatever status object is shown, and so for the
  polled ones the body exactly when completed and the error paragraph exactly when
  failed. The endpoint is the one of the preceding section; the card is
  \<^verbatim>\<open>render_card\<close>, from \<^verbatim>\<open>JobsPage.tsx\<close>.
\<close>

theorem poll_result_error_presence:
  assumes "run_orchestrator Map.empty evs = Some store" and "poll_evaluation store i = Some e"
  shows
    "((\<exists>r. result e = Defined r) = (status e = Completed))
     \<and> ((\<exists>m. error e = Defined m) = (status e = Failed))
     \<and> ((\<exists>b. map_option body (render_card js (Some e)) = Some (Some b))
          = (status e = Completed))
     \<and> ((\<exists>p. map_option error_paragraph (render_card js (Some e)) = Some (Some p))
          = (status e = Failed))
     \<and> ((\<exists>b. map_option body (render_card js (Some shown)) = Some (Some b))
          = (\<exists>r. result shown = Defined r))
     \<and> ((\<exists>p. map_option error_paragraph (render_card js (Some shown)) = Some (Some p))
          = (\<exists>m. error shown = Defined m \<and> m \<noteq> []))"
proof -
  have inv: "store_invariant store"
    using store_invariant_empty assms(1) by (rule run_invariant)
  obtain job where j: "store i = Some job" and st: "status e = job_status job"
    and re: "result e = present (job_result job)" and er: "error e = present (job_error job)"
    using poll_evaluation_job [OF assms(2)] by blast
  have ji: "job_invariant job"
    using inv j by (rule store_invariant_job)
  have r: "(\<exists>r. result e = Defined r) = (status e = Completed)"
    using ji by (simp add: re st present_defined job_invariant_def)
  have m: "(\<exists>m. error e = Defined m) = (status e = Failed)"
    using ji by (simp add: er st present_defined job_invariant_def)
  have ne: "(\<exists>m. error e = Defined m \<and> m \<noteq> []) = (\<exists>m. error e = Defined m)"
    using ji by (auto simp add: er present_eq job_invariant_def)
  show ?thesis
    using r m ne card_parts [of js e] card_parts [of js shown] by simp
qed

lemma run_sample_trace: "run_orchestrator Map.empty sample_trace = Some sample_store"
  by (simp add: sample_trace_def sample_store_def create_job_def transition_def)

lemma poll_sample_store: "poll_evaluation sample_store ''job-42'' = Some sample_completed_poll"
  by (simp add: poll_evaluation_def get_job_def sample_store_def sample_completed_poll_def
      present_def)

theorem poll_result_error_presence_witness:
  "run_orchestrator Map.empty sample_trace = Some sample_store
   \<and> poll_evaluation sample_store ''job-42'' = Some sample_completed_poll
   \<and> status sample_completed_poll = Completed
   \<and> result sample_completed_poll = Defined sample_result
   \<and> map_option body (render_card exact_runtime (Some sample_completed_poll))
       = Some (Some (render_body exact_runtime sample_result))
   \<and> map_option error_paragraph (render_card exact_runtime (Some sample_completed_poll))
       = Some None"
proof -
  note th = poll_result_error_presence [OF run_sample_trace poll_sample_store,
      of exact_runtime sample_completed_poll]
  have c: "status sample_completed_poll = Completed"
    by (simp add: sample_completed_poll_def)
  have "\<exists>r. result sample_completed_poll = Defined r"
    using th c by blast
  then have r: "result sample_completed_poll = Defined sample_result"
    by (auto simp add: sample_completed_poll_def)
  have "\<exists>b. map_option body (render_card exact_runtime (Some sample_completed_poll))
      = Some (Some b)"
    using th c by blast
  then have b: "map_option body (render_card exact_runtime (Some sample_completed_poll))
       = Some (Some (render_body exact_runtime sample_result))"
    by (auto simp add: render_card_def r)
  have "\<not> (\<exists>p. map_option error_paragraph
      (render_card exact_runtime (Some sample_completed_poll)) = Some (Some p))"
    using th c by simp
  then have e: "map_option error_paragraph
      (render_card exact_runtime (Some sample_completed_poll)) = Some None"
    by (cases "error sample_completed_poll") (auto simp add: render_card_def)
  show ?thesis
    using run_sample_trace poll_sample_store c r b e by simp
qed


lemma queued_first:
  assumes "next_status\<^sup>*\<^sup>* a b" and "b = Queued"
  shows "a = Queued"
  using assms by (induction rule: rtranclp_induct) (auto elim: next_status.elims)

lemma status_string_cases:
  "status_string s \<in> {''queued'', ''processing'', ''completed'', ''failed''}"
  by (cases s) (simp_all add: status_string_def)

lemma statusBadge_has_class: "status_string s \<in> fst ` set statusBadge"
  by (cases s) (simp_all add: status_string_def statusBadge_def)

lemma run_orchestrator_single:
  "run_orchestrator store [ev] = orchestrate store ev"
  by (simp split: option.splits)

text \<open>
  Claim C3. Every status a caller observes is one of the four values queued, processing,
  completed, failed (each with its badge in \<^verbatim>\<open>statusBadge\<close>), and between two polls of
  one job the status only advances along the chain
  \<^verbatim>\<open>queued -> processing -> {completed | failed}\<close>: a single step of the Orchestrator
  leaves the status or moves it along one arrow, so that no job goes from queued to a
  terminal status without entering processing (a job seen beyond queued has its
  \<^verbatim>\<open>started_at\<close>), and a job seen completed or failed keeps that status in every later
  poll. The job never disappears between the polls.
\<close>

theorem status_chain:
  assumes "run_orchestrator Map.empty evs = Some store"
    and "poll_evaluation store i = Some e"
    and "run_orchestrator store later = Some store'"
  shows
    "status_string (status e) \<in> {''queued'', ''processing'', ''completed'', ''failed''}
     \<and> status_string (status e) \<in> fst ` set statusBadge
     \<and> (\<exists>e'. poll_evaluation store' i = Some e'
          \<and> next_status\<^sup>*\<^sup>* (status e) (status e')
          \<and> (length later = 1 \<longrightarrow>
                status e' = status e \<or> next_status (status e) (status e'))
          \<and> (status e = Completed \<or> status e = Failed \<longrightarrow> status e' = status e)
          \<and> (status e' = Queued \<longrightarrow> status e = Queued)
          \<and> (status e' \<noteq> Queued \<longrightarrow> (\<exists>t. started_at e' = Defined t)))"
proof -
  have inv: "store_invariant store"
    using store_invariant_empty assms(1) by (rule run_invariant)
  have inv': "store_invariant store'"
    using inv assms(3) by (rule run_invariant)
  obtain job where j: "store i = Some job" and st: "status e = job_status job"
    using poll_evaluation_job [OF assms(2)] by blast
  obtain job' where j': "store' i = Some job'"
    and ch: "next_status\<^sup>*\<^sup>* (job_status job) (job_status job')"
    using run_status [OF assms(3) j] by blast
  define e' where "e' = \<lparr>id_Evaluation = job_identity job', status = job_status job',
                result = present (job_result job'), error = present (job_error job'),
                queued_at = present (job_queued_at job'),
                started_at = present (job_started_at job'),
                finished_at = present (job_finished_at job')\<rparr>"
  have p': "poll_evaluation store' i = Some e'"
    by (simp add: poll_evaluation_def get_job_def j' e'_def)
  have st': "status e' = job_status job'" and sa: "started_at e' = present (job_started_at job')"
    by (simp_all add: e'_def)
  have c1: "next_status\<^sup>*\<^sup>* (status e) (status e')"
    using ch by (simp add: st st')
  have c2: "length later = 1 \<longrightarrow> status e' = status e \<or> next_status (status e) (status e')"
  proof
    assume "length later = 1"
    then obtain ev where "later = [ev]"
      by (cases later) auto
    then have "orchestrate store ev = Some store'"
      using assms(3) by (simp split: option.splits)
    from orchestrate_status [OF this j] show
      "status e' = status e \<or> next_status (status e) (status e')"
      using j' by (auto simp add: st st')
  qed
  have c3: "status e = Completed \<or> status e = Failed \<longrightarrow> status e' = status e"
    using terminal_stays [OF c1] by blast
  have c4: "status e' = Queued \<longrightarrow> status e = Queued"
    using queued_first [OF c1] by blast
  have ji': "job_invariant job'"
    using inv' j' by (rule store_invariant_job)
  have c5: "status e' \<noteq> Queued \<longrightarrow> (\<exists>t. started_at e' = Defined t)"
    using ji' by (simp add: st' sa present_defined job_invariant_def)
  have ex: "\<exists>e'. poll_evaluation store' i = Some e'
          \<and> next_status\<^sup>*\<^sup>* (status e) (status e')
          \<and> (length later = 1 \<longrightarrow>
                status e' = status e \<or> next_status (status e) (status e'))
          \<and> (status e = Completed \<or> status e = Failed \<longrightarrow> status e' = status e)
          \<and> (status e' = Queued \<longrightarrow> status e = Queued)
          \<and> (status e' \<noteq> Queued \<longrightarrow> (\<exists>t. started_at e' = Defined t))"
    using p' c1 c2 c3 c4 c5 by (intro exI [of _ e'] conjI)
  show ?thesis
    using status_string_cases [of "status e"] statusBadge_has_class [of "status e"] ex
    by (intro conjI)
qed

lemma run_queued: "run_orchestrator Map.empty (take 1 sample_trace) = Some queued_store"
  by (simp add: sample_trace_def queued_store_def create_job_def)

lemma poll_queued_store: "poll_evaluation queued_store ''job-42'' = Some sample_queued_poll"
  by (simp add: poll_evaluation_def get_job_def queued_store_def sample_queued_poll_def
      present_def)

lemma run_later: "run_orchestrator queued_store (drop 1 sample_trace) = Some sample_store"
  by (simp add: sample_trace_def queued_store_def sample_store_def transition_def)

theorem status_chain_witness:
  "run_orchestrator Map.empty (take 1 sample_trace) = Some queued_store
   \<and> poll_evaluation queued_store ''job-42'' = Some sample_queued_poll
   \<and> run_orchestrator queued_store (drop 1 sample_trace) = Some sample_store
   \<and> poll_evaluation sample_store ''job-42'' = Some sample_completed_poll
   \<and> status sample_queued_poll = Queued
   \<and> status sample_completed_poll = Completed
   \<and> next_status\<^sup>*\<^sup>* (status sample_queued_poll) (status sample_completed_poll)
   \<and> started_at sample_completed_poll = Defined ''09:01''
   \<and> orchestrate sample_store (Claim ''job-42'' ''09:09'') = None
   \<and> orchestrate queued_store (Complete ''job-42'' sample_result ''09:09'') = None"
proof -
  note th = status_chain [OF run_queued poll_queued_store run_later]
  from th obtain e' where pe: "poll_evaluation sample_store ''job-42'' = Some e'"
    and ce: "next_status\<^sup>*\<^sup>* (status sample_queued_poll) (status e')"
    by blast
  have "e' = sample_completed_poll"
    using pe poll_sample_store by simp
  then have ch: "next_status\<^sup>*\<^sup>* (status sample_queued_poll) (status sample_completed_poll)"
    using ce by simp
  have s1: "status sample_queued_poll = Queued"
    by (simp add: sample_queued_poll_def)
  have s2: "status sample_completed_poll = Completed"
    and s3: "started_at sample_completed_poll = Defined ''09:01''"
    by (simp_all add: sample_completed_poll_def)
  have n1: "orchestrate sample_store (Claim ''job-42'' ''09:09'') = None"
    by (simp add: sample_store_def transition_def)
  have n2: "orchestrate queued_store (Complete ''job-42'' sample_result ''09:09'') = None"
    by (simp add: queued_store_def transition_def)
  show ?thesis
    using run_queued poll_queued_store run_later poll_sample_store ch s1 s2 s3 n1 n2 by simp
qed

end
